theory Spec2Isabelle
  imports Complex_Main
begin

unbundle bit_operations_syntax

section \<open>JavaScript primitives used by the loader\<close>

text \<open>
  The loader \<^verbatim>\<open>src/load_sif.js\<close> is JavaScript.  Strings are modelled as HOL strings
  (lists of 8-bit characters), numbers as \<open>jsnum\<close>: a real number, \<open>NaN\<close> or one of the two
  infinities.  Arithmetic is exact: IEEE rounding, overflow and the negative zero are not
  modelled.
\<close>

datatype jsnum = NaN | Num real | PosInf | NegInf

text \<open>Truthiness of a number: \<open>0\<close> and \<open>NaN\<close> are falsy.\<close>

fun numTruthy :: "jsnum \<Rightarrow> bool" where
  "numTruthy NaN = False"
| "numTruthy (Num r) = (r \<noteq> 0)"
| "numTruthy PosInf = True"
| "numTruthy NegInf = True"

text \<open>The idiom \<^verbatim>\<open>x || 0\<close> on a number.\<close>

definition orZero :: "jsnum \<Rightarrow> jsnum" where
  "orZero n = (if numTruthy n then n else Num 0)"

fun jadd :: "jsnum \<Rightarrow> jsnum \<Rightarrow> jsnum" where
  "jadd (Num a) (Num b) = Num (a + b)"
| "jadd NaN _ = NaN"
| "jadd _ NaN = NaN"
| "jadd PosInf NegInf = NaN"
| "jadd NegInf PosInf = NaN"
| "jadd PosInf _ = PosInf"
| "jadd _ PosInf = PosInf"
| "jadd NegInf _ = NegInf"
| "jadd _ NegInf = NegInf"

fun jmul :: "jsnum \<Rightarrow> jsnum \<Rightarrow> jsnum" where
  "jmul (Num a) (Num b) = Num (a * b)"
| "jmul NaN _ = NaN"
| "jmul _ NaN = NaN"
| "jmul (Num a) i = (if a = 0 then NaN else if (0 < a) = (i = PosInf) then PosInf else NegInf)"
| "jmul i (Num b) = (if b = 0 then NaN else if (0 < b) = (i = PosInf) then PosInf else NegInf)"
| "jmul PosInf PosInf = PosInf"
| "jmul NegInf NegInf = PosInf"
| "jmul _ _ = NegInf"

fun jdiv :: "jsnum \<Rightarrow> jsnum \<Rightarrow> jsnum" where
  "jdiv NaN _ = NaN"
| "jdiv _ NaN = NaN"
| "jdiv (Num a) (Num b) =
     (if b = 0 then (if a = 0 then NaN else if 0 < a then PosInf else NegInf)
      else Num (a / b))"
| "jdiv (Num a) _ = Num 0"
| "jdiv i (Num b) = (if (0 \<le> b) = (i = PosInf) then PosInf else NegInf)"
| "jdiv _ _ = NaN"

text \<open>The comparison \<^verbatim>\<open>a < b\<close>: false as soon as one side is \<open>NaN\<close>.\<close>

fun jless :: "jsnum \<Rightarrow> jsnum \<Rightarrow> bool" where
  "jless NaN _ = False"
| "jless _ NaN = False"
| "jless (Num a) (Num b) = (a < b)"
| "jless NegInf b = (b \<noteq> NegInf)"
| "jless a PosInf = (a \<noteq> PosInf)"
| "jless _ _ = False"

definition isDigit :: "char \<Rightarrow> bool" where
  "isDigit c = (c \<in> set ''0123456789'')"

definition isHexDigit :: "char \<Rightarrow> bool" where
  "isHexDigit c = (c \<in> set ''0123456789abcdefABCDEF'')"

text \<open>White space and line terminators among the 8-bit characters.\<close>

definition isWhite :: "char \<Rightarrow> bool" where
  "isWhite c = (c \<in> set [CHR 0x09, CHR 0x0A, CHR 0x0B, CHR 0x0C, CHR 0x0D, CHR 0x20, CHR 0xA0])"

definition trim :: "string \<Rightarrow> string" where
  "trim s = rev (dropWhile isWhite (rev (dropWhile isWhite s)))"

definition digitVal :: "char \<Rightarrow> nat" where
  "digitVal c =
     (if isDigit c then of_char c - 48
      else if c \<in> set ''abcdef'' then of_char c - 87
      else of_char c - 55)"

definition radixVal :: "nat \<Rightarrow> string \<Rightarrow> nat" where
  "radixVal r ds = foldl (\<lambda>a c. a * r + digitVal c) 0 ds"

text \<open>An exponent part \<^verbatim>\<open>e[+-]?digits\<close> at the head of a string, if complete:
  whether it is negative, its magnitude, and the rest of the string.\<close>

definition exponentPart :: "string \<Rightarrow> (bool \<times> nat \<times> string) option" where
  "exponentPart s =
     (case s of
        [] \<Rightarrow> None
      | e # r \<Rightarrow>
          if e = CHR ''e'' \<or> e = CHR ''E'' then
            (let sgn = (r \<noteq> [] \<and> (hd r = CHR ''+'' \<or> hd r = CHR ''-''));
                 neg = (r \<noteq> [] \<and> hd r = CHR ''-'');
                 u = (if sgn then tl r else r);
                 ds = takeWhile isDigit u
             in if ds = [] then None else Some (neg, radixVal 10 ds, dropWhile isDigit u))
          else None)"

text \<open>The longest unsigned decimal literal at the head of a string, and the rest.\<close>

definition unsignedDecimal :: "string \<Rightarrow> (real \<times> string) option" where
  "unsignedDecimal s =
     (let d1 = takeWhile isDigit s;
          r1 = dropWhile isDigit s;
          hasDot = (r1 \<noteq> [] \<and> hd r1 = CHR ''.'');
          d2 = (if hasDot then takeWhile isDigit (tl r1) else []);
          r2 = (if hasDot then dropWhile isDigit (tl r1) else r1)
      in if d1 = [] \<and> d2 = [] then None
         else
           (let m = real (radixVal 10 (d1 @ d2)) / 10 ^ length d2
            in case exponentPart r2 of
                 Some (neg, e, r3) \<Rightarrow> Some (if neg then m / 10 ^ e else m * 10 ^ e, r3)
               | None \<Rightarrow> Some (m, r2)))"

text \<open>The longest signed decimal literal (\<^verbatim>\<open>StrDecimalLiteral\<close>) at the head of a
  string, and the rest.\<close>

definition strDecimal :: "string \<Rightarrow> (jsnum \<times> string) option" where
  "strDecimal s =
     (let sgn = (s \<noteq> [] \<and> (hd s = CHR ''+'' \<or> hd s = CHR ''-''));
          neg = (s \<noteq> [] \<and> hd s = CHR ''-'');
          u = (if sgn then tl s else s)
      in if take 8 u = ''Infinity'' then Some (if neg then NegInf else PosInf, drop 8 u)
         else
           (case unsignedDecimal u of
              None \<Rightarrow> None
            | Some (m, r) \<Rightarrow> Some (Num (if neg then - m else m), r)))"

text \<open>\<^verbatim>\<open>parseFloat(s)\<close>: the longest decimal literal after leading white space.\<close>

definition parseFloat :: "string \<Rightarrow> jsnum" where
  "parseFloat s = (case strDecimal (dropWhile isWhite s) of Some (v, r) \<Rightarrow> v | None \<Rightarrow> NaN)"

text \<open>\<^verbatim>\<open>parseInt(s)\<close> with no radix: decimal, or hexadecimal after \<^verbatim>\<open>0x\<close>.\<close>

definition parseInt :: "string \<Rightarrow> jsnum" where
  "parseInt s =
     (let t = dropWhile isWhite s;
          sgn = (t \<noteq> [] \<and> (hd t = CHR ''+'' \<or> hd t = CHR ''-''));
          neg = (t \<noteq> [] \<and> hd t = CHR ''-'');
          u = (if sgn then tl t else t);
          hex = (take 2 u = ''0x'' \<or> take 2 u = ''0X'');
          ds = (if hex then takeWhile isHexDigit (drop 2 u) else takeWhile isDigit u);
          n = real (radixVal (if hex then 16 else 10) ds)
      in if ds = [] then NaN else Num (if neg then - n else n))"

text \<open>The conversion \<^verbatim>\<open>+s\<close> of a string to a number.\<close>

definition toNumber :: "string \<Rightarrow> jsnum" where
  "toNumber s =
     (let t = trim s;
          p = take 2 t;
          b = drop 2 t
      in if t = [] then Num 0
         else if p = ''0x'' \<or> p = ''0X'' then
           (if b \<noteq> [] \<and> list_all isHexDigit b then Num (real (radixVal 16 b)) else NaN)
         else if p = ''0o'' \<or> p = ''0O'' then
           (if b \<noteq> [] \<and> list_all (\<lambda>c. c \<in> set ''01234567'') b then Num (real (radixVal 8 b))
            else NaN)
         else if p = ''0b'' \<or> p = ''0B'' then
           (if b \<noteq> [] \<and> list_all (\<lambda>c. c \<in> set ''01'') b then Num (real (radixVal 2 b)) else NaN)
         else
           (case strDecimal t of
              Some (v, r) \<Rightarrow> if r = [] then v else NaN
            | None \<Rightarrow> NaN))"

text \<open>\<^verbatim>\<open>s.toLowerCase()\<close> on the ASCII letters.\<close>

definition lowerChar :: "char \<Rightarrow> char" where
  "lowerChar c =
     (case map_of (zip ''ABCDEFGHIJKLMNOPQRSTUVWXYZ'' ''abcdefghijklmnopqrstuvwxyz'') c of
        Some l \<Rightarrow> l
      | None \<Rightarrow> c)"

definition toLowerCase :: "string \<Rightarrow> string" where
  "toLowerCase s = map lowerChar s"

text \<open>\<^verbatim>\<open>s.split(c)\<close> for a one-character separator: never the empty list.\<close>

fun split :: "char \<Rightarrow> string \<Rightarrow> string list" where
  "split c [] = [[]]"
| "split c (x # xs) =
     (if x = c then [] # split c xs
      else (case split c xs of p # ps \<Rightarrow> (x # p) # ps | [] \<Rightarrow> [[x]]))"

text \<open>\<^verbatim>\<open>s.indexOf(c)\<close>; \<open>None\<close> is the result \<open>-1\<close>.\<close>

definition indexOf :: "char \<Rightarrow> string \<Rightarrow> nat option" where
  "indexOf c s = (if c \<in> set s then Some (length (takeWhile (\<lambda>x. x \<noteq> c) s)) else None)"

text \<open>\<^verbatim>\<open>/-?\d*\.?\d*/.exec(s)\<close>: the pattern matches the empty string, so the match
  is never \<^verbatim>\<open>null\<close> and starts at index 0; every quantifier is greedy and nothing
  follows that could force backtracking.  The result is the matched text.\<close>

definition regexExec :: "string \<Rightarrow> string option" where
  "regexExec s =
     (let sg = (if s \<noteq> [] \<and> hd s = CHR ''-'' then ''-'' else []);
          r1 = drop (length sg) s;
          d1 = takeWhile isDigit r1;
          r2 = dropWhile isDigit r1;
          dot = (if r2 \<noteq> [] \<and> hd r2 = CHR ''.'' then ''.'' else []);
          d2 = takeWhile isDigit (drop (length dot) r2)
      in Some (sg @ d1 @ dot @ d2))"

section \<open>The timestamp parser\<close>

text \<open>Messages of \<^verbatim>\<open>console.warn\<close>, in the order they are printed.  The timecode
  warnings carry the (lower-cased) stamp they quote.\<close>

datatype warning =
    NoUnitAssumingFrames string
  | NoUnitNoFpsAssumingSeconds string
  | FramesButFpsUnknown string
  | BadTimeFormat string
  | UnexpectedUnitCode string char
  | BonesUnsupported
  | InlineNoKeyframes
  | InlineNoMetadata

text \<open>
  The colon notation, lines 524 to 537: what \<^verbatim>\<open>parseTime\<close> returns once it meets a
  \<^verbatim>\<open>:\<close> in a stamp of at least three colon fields \<open>parts\<close>.  A dot in the third
  field splits it: the text after the dot is pushed at the end of \<open>parts\<close>, the text
  before it stays as the third field.
\<close>

definition colonTime ::
  "string list \<Rightarrow> jsnum \<Rightarrow> string \<Rightarrow> warning list \<Rightarrow> jsnum \<times> warning list" where
  "colonTime parts fps stamp ws =
     (let parts1 =
            (case indexOf CHR ''.'' (parts ! 2) of
               Some dot \<Rightarrow> (parts @ [drop (dot + 1) (parts ! 2)])[2 := take dot (parts ! 2)]
             | None \<Rightarrow> parts);
          val1 =
            jadd
              (jadd (jmul (orZero (toNumber (parts1 ! 0))) (Num 3600))
                    (jmul (orZero (toNumber (parts1 ! 1))) (Num 60)))
              (orZero (toNumber (parts1 ! 2)))
      in if 4 \<le> length parts1 then
           (if numTruthy fps
            then (jadd val1 (jdiv (orZero (toNumber (parts1 ! 3))) fps), ws)
            else (val1, ws @ [FramesButFpsUnknown stamp]))
         else (val1, ws))"

text \<open>
  The loop of \<^verbatim>\<open>parseTime\<close>, lines 491 to 545: \<open>pos\<close> and \<open>val\<close> are the loop
  variables \<^verbatim>\<open>pos\<close> and \<^verbatim>\<open>value\<close>, \<open>ws\<close> the warnings printed so far.
  \<open>fps\<close> is the frame rate after \<^verbatim>\<open>fps = fps || 0\<close>.
\<close>

function parseTime_loop ::
  "string \<Rightarrow> jsnum \<Rightarrow> nat \<Rightarrow> jsnum \<Rightarrow> warning list \<Rightarrow> jsnum \<times> warning list" where
  "parseTime_loop stamp fps pos val ws =
     (if \<not> pos < length stamp then (val, ws)
      else
        (let match = regexExec (drop pos stamp);
             amount = (case match of Some m \<Rightarrow> orZero (toNumber m) | None \<Rightarrow> Num 0);
             pos1 = (case match of Some m \<Rightarrow> pos + length m | None \<Rightarrow> pos)
         in if length stamp \<le> pos1 \<or> match = None then
              (if amount \<noteq> Num 0 then
                 (if numTruthy fps
                  then (jadd val (jdiv amount fps), ws @ [NoUnitAssumingFrames stamp])
                  else (jadd val amount, ws @ [NoUnitNoFpsAssumingSeconds stamp]))
               else (val, ws))
            else
              (let code = stamp ! pos1
               in if code = CHR ''h'' then
                    parseTime_loop stamp fps (pos1 + 1) (jadd val (jmul amount (Num 3600))) ws
                  else if code = CHR ''m'' then
                    parseTime_loop stamp fps (pos1 + 1) (jadd val (jmul amount (Num 60))) ws
                  else if code = CHR ''s'' then
                    parseTime_loop stamp fps (pos1 + 1) (jadd val amount) ws
                  else if code = CHR ''f'' then
                    (if numTruthy fps
                     then parseTime_loop stamp fps (pos1 + 1) (jadd val (jdiv amount fps)) ws
                     else parseTime_loop stamp fps (pos1 + 1) val
                            (ws @ [FramesButFpsUnknown stamp]))
                  else if code = CHR '':'' then
                    (let parts = split CHR '':'' stamp
                     in if 3 \<le> length parts then colonTime parts fps stamp ws
                        else
                          parseTime_loop stamp fps (pos1 + 1) val (ws @ [BadTimeFormat stamp]))
                  else
                    parseTime_loop stamp fps (pos1 + 1) (jadd val amount)
                      (ws @ [UnexpectedUnitCode stamp code]))))"
  by pat_completeness auto
termination
  by (relation "measure (\<lambda>(stamp, fps, pos, val, ws). length stamp - pos)")
     (auto split: option.splits)

declare parseTime_loop.simps [simp del]

text \<open>
  \<^verbatim>\<open>parseTime(stamp, fps)\<close>, lines 481 to 547.  The frame rate is \<open>None\<close> when the
  caller passes none (or \<^verbatim>\<open>undefined\<close>).  The result is the number returned and the
  warnings printed.
\<close>

definition parseTime :: "string \<Rightarrow> jsnum option \<Rightarrow> jsnum \<times> warning list" where
  "parseTime stamp0 fps0 =
     (let fps = (case fps0 of None \<Rightarrow> Num 0 | Some f \<Rightarrow> orZero f);
          stamp = toLowerCase stamp0
      in if stamp = ''sot'' \<or> stamp = ''bot'' then (Num (- 32767 * 512), [])
         else if stamp = ''eot'' then (Num (32767 * 512), [])
         else parseTime_loop stamp fps 0 (Num 0) [])"


section \<open>Errors and results\<close>

text \<open>
  Every \<^verbatim>\<open>throw Error(...)\<close> of the loader is a constructor, with the values its
  message quotes.  \<open>ReferenceError\<close> is the exception of an identifier that is not in
  scope, \<open>TypeError\<close> the one of a property read from \<^verbatim>\<open>undefined\<close>, \<open>ReaderError\<close>
  the one the tag reader raises when the next node is not the expected one, \<open>NotFound\<close>
  the failure of a registry lookup.
\<close>

datatype error =
    MissingAttribute string string
  | CanvasTooSmall
  | WrongArity string nat nat
  | InlineDefs
  | UnexpectedElement string string
  | ExpectedVectorInSegment
  | GradientColorMissingPos
  | BadBool string
  | TransformationType string string string
  | ExpectedListItem string
  | ExpectedValueNode string
  | InvalidStatic string
  | InvalidInterpolation string
  | LayerNotImplemented
  | ReferenceError string
  | TypeError string
  | ReaderError string
  | NotFound string

text \<open>
  A call returns a value, throws, or (in the model only) runs out of fuel: the parsers
  loop over the children of an element with a callback, and a callback that consumes
  nothing makes such a loop run forever.
\<close>

datatype 'a res = Ok 'a | Throw error | OutOfFuel

fun andThen :: "'a res \<Rightarrow> ('a \<Rightarrow> 'b res) \<Rightarrow> 'b res" where
  "andThen (Ok x) f = f x"
| "andThen (Throw e) f = Throw e"
| "andThen OutOfFuel f = OutOfFuel"

section \<open>The timestamp parser as a computation that may fail\<close>

text \<open>
  \<open>parseTime\<close> above is a total function into the numbers.  What the source could do
  besides returning is made explicit here: not leave its loop, or raise a type error
  where it reads a property of a value that is \<^verbatim>\<open>undefined\<close>.
\<close>






section \<open>Values, value nodes, canvases\<close>

text \<open>The constants of the module \<^verbatim>\<open>interpolation.js\<close>, by name.\<close>

datatype interpolation = HALT | CONSTANT | LINEAR | MANUAL | TCB | CLAMPED | UNDEFINED

text \<open>An object of the registry: a canvas or a value node, by its address.\<close>

datatype objref = CanvasRef nat | NodeRef nat

text \<open>
  A value is the object made by \<^verbatim>\<open>ValueBase.create(type)\<close> with the fields the parser
  assigns: \<open>vdata\<close> is \<^verbatim>\<open>out.data\<close>, \<open>vstatic\<close> and \<open>vinterp\<close> are \<^verbatim>\<open>out.static\<close> and
  \<^verbatim>\<open>out.interpolation\<close>.  A field that holds \<open>None\<close> (or \<open>Undefined\<close>) was never
  assigned by the parser: it is as the constructor of the object left it.  \<open>Radians d\<close>
  is the number \<^verbatim>\<open>d * Math.PI / 180\<close> of line 332, where all four angle tags are read as
  degrees; the factor is kept symbolic.
\<close>

datatype "value" =
  Value (vtype: string) (vdata: vdata) (vstatic: "bool option")
        (vinterp: "interpolation option")
and vdata =
    Undefined
  | Number jsnum
  | Radians jsnum
  | Text string
  | Boolean bool
  | Vector "jsnum option" "jsnum option"
  | Color "jsnum option" "jsnum option" "jsnum option" "jsnum option"
  | Segment "vdata option" "vdata option" "vdata option" "vdata option"
  | Gradient "(jsnum \<times> vdata) list"
  | Transformation "vdata option" "vdata option" "vdata option" "vdata option"
  | ListData "value list"
  | CanvasData objref

text \<open>A value node: the constant node of \<^verbatim>\<open>VNConst.create(value)\<close>, or a node made by
  one of the parsers that are not part of this file.\<close>

datatype valueNode = VNConst "value" | VNOther string

record keyframe =
  kTime :: jsnum
  kActive :: bool
  kDesc :: string

text \<open>A canvas, with the fields \<^verbatim>\<open>parseCanvas\<close> and its helpers assign.\<close>

record canvas =
  cParent :: "nat option"
  cGuid :: "string option"
  cId :: "string option"
  cVersion :: "string option"
  cWidth :: "jsnum option"
  cHeight :: "jsnum option"
  cXres :: "jsnum option"
  cYres :: "jsnum option"
  cFps :: "jsnum option"
  cTimeStart :: "jsnum option"
  cTimeEnd :: "jsnum option"
  cAntialias :: "jsnum option"
  cTl :: "(jsnum \<times> jsnum) option"
  cBr :: "(jsnum \<times> jsnum) option"
  cBgcolor :: "(jsnum \<times> jsnum \<times> jsnum \<times> jsnum) option"
  cFocus :: "(jsnum \<times> jsnum) option"
  cName :: "string option"
  cDesc :: "string option"
  cAuthor :: "string option"
  cKeyframes :: "keyframe list"
  cValueNodes :: "string \<rightharpoonup> objref"
  cMetadata :: "string \<rightharpoonup> string"
  cLayers :: "objref list"

section \<open>The tag reader and the parse state\<close>

type_synonym attrs = "(string \<times> string) list"

text \<open>A node of the document: an opening tag with its attributes, a closing tag, or
  text in its normalised and raw forms.\<close>

datatype node = OpenTag string attrs | CloseTag string | TextNode string string

text \<open>
  The state the parser works on: the nodes the reader has not consumed yet, the table of
  the module \<^verbatim>\<open>guid.js\<close>, the canvases and value nodes allocated so far (by address; the
  next free address is \<open>nextRef\<close>), the number of ids generated, and the warnings printed.
\<close>

record state =
  pulley :: "node list"
  registry :: "string \<rightharpoonup> objref"
  canvases :: "nat \<Rightarrow> canvas"
  nodes :: "nat \<Rightarrow> valueNode"
  nextRef :: nat
  guidCount :: nat
  warnings :: "warning list"

text \<open>\<^verbatim>\<open>tag.attributes[name]\<close>; \<open>None\<close> is \<^verbatim>\<open>undefined\<close>.\<close>

definition attr :: "attrs \<Rightarrow> string \<Rightarrow> string option" where
  "attr a n = map_of a n"

text \<open>Truthiness of an attribute: present and not the empty string.\<close>

definition strTruthy :: "string option \<Rightarrow> bool" where
  "strTruthy v = (case v of None \<Rightarrow> False | Some s \<Rightarrow> s \<noteq> [])"

definition warn :: "warning list \<Rightarrow> state \<Rightarrow> state" where
  "warn ws st = st\<lparr>warnings := warnings st @ ws\<rparr>"

text \<open>
  Modelled from the spec: the tag reader (the package \<^verbatim>\<open>xml-pulley\<close>, which is not
  part of the repository), section 6: look at the current tag without consuming it
  (\<^verbatim>\<open>check\<close>, \<^verbatim>\<open>checkName\<close>), consume an open tag (\<^verbatim>\<open>expect\<close>, \<^verbatim>\<open>expectName\<close>), consume
  a matching close tag, read text content (\<^verbatim>\<open>nextText\<close>, the empty text when the next
  node is not text), skip a subtree (\<^verbatim>\<open>skipTag\<close>) and iterate over the children of an
  element until its close tag (\<^verbatim>\<open>loopTag\<close>).
\<close>

definition check_opentag :: "state \<Rightarrow> (string \<times> attrs) res" where
  "check_opentag st =
     (case pulley st of
        OpenTag n a # rest \<Rightarrow> Ok (n, a)
      | _ \<Rightarrow> Throw (ReaderError ''opentag''))"

definition expect_opentag :: "state \<Rightarrow> ((string \<times> attrs) \<times> state) res" where
  "expect_opentag st =
     (case pulley st of
        OpenTag n a # rest \<Rightarrow> Ok ((n, a), st\<lparr>pulley := rest\<rparr>)
      | _ \<Rightarrow> Throw (ReaderError ''opentag''))"

definition checkName :: "string \<Rightarrow> state \<Rightarrow> (string \<times> attrs) res" where
  "checkName name st =
     (case pulley st of
        OpenTag n a # rest \<Rightarrow> if n = name then Ok (n, a) else Throw (ReaderError name)
      | _ \<Rightarrow> Throw (ReaderError name))"

definition expectName :: "string \<Rightarrow> state \<Rightarrow> ((string \<times> attrs) \<times> state) res" where
  "expectName name st =
     (case pulley st of
        OpenTag n a # rest \<Rightarrow>
          if n = name then Ok ((n, a), st\<lparr>pulley := rest\<rparr>) else Throw (ReaderError name)
      | _ \<Rightarrow> Throw (ReaderError name))"

definition expectClose :: "string \<Rightarrow> state \<Rightarrow> state res" where
  "expectClose name st =
     (case pulley st of
        CloseTag n # rest \<Rightarrow>
          if n = name then Ok (st\<lparr>pulley := rest\<rparr>) else Throw (ReaderError name)
      | _ \<Rightarrow> Throw (ReaderError name))"

text \<open>\<^verbatim>\<open>pulley.nextText()\<close>: the pair \<^verbatim>\<open>(text, rawText)\<close>.\<close>

definition nextText :: "state \<Rightarrow> (string \<times> string) \<times> state" where
  "nextText st =
     (case pulley st of
        TextNode t raw # rest \<Rightarrow> ((t, raw), st\<lparr>pulley := rest\<rparr>)
      | _ \<Rightarrow> (([], []), st))"

text \<open>The nodes after the close tag that matches an open tag already consumed;
  \<open>d\<close> counts the elements opened since.\<close>

fun skipNodes :: "nat \<Rightarrow> node list \<Rightarrow> node list option" where
  "skipNodes d [] = None"
| "skipNodes d (OpenTag n a # rest) = skipNodes (Suc d) rest"
| "skipNodes d (TextNode t raw # rest) = skipNodes d rest"
| "skipNodes 0 (CloseTag n # rest) = Some rest"
| "skipNodes (Suc d) (CloseTag n # rest) = skipNodes d rest"

definition skipTag :: "state \<Rightarrow> state res" where
  "skipTag st =
     (case pulley st of
        OpenTag n a # rest \<Rightarrow>
          (case skipNodes 0 rest of
             Some rest1 \<Rightarrow> Ok (st\<lparr>pulley := rest1\<rparr>)
           | None \<Rightarrow> Throw (ReaderError ''closetag''))
      | _ \<Rightarrow> Throw (ReaderError ''opentag''))"

text \<open>The loop of \<^verbatim>\<open>loopTag\<close>: the callback runs until the next node is a close tag.
  \<open>acc\<close> stands for the local variables the callback of the source updates.\<close>

fun loopNodes ::
  "nat \<Rightarrow> ('a \<Rightarrow> state \<Rightarrow> ('a \<times> state) res) \<Rightarrow> 'a \<Rightarrow> state \<Rightarrow> ('a \<times> state) res" where
  "loopNodes 0 cb acc st = OutOfFuel"
| "loopNodes (Suc n) cb acc st =
     (case pulley st of
        [] \<Rightarrow> Throw (ReaderError ''closetag'')
      | CloseTag nm # rest \<Rightarrow> Ok (acc, st)
      | _ \<Rightarrow> andThen (cb acc st) (\<lambda>(acc1, st1). loopNodes n cb acc1 st1))"

text \<open>\<^verbatim>\<open>pulley.loopTag(callback, name)\<close>: consume the open tag (of that name, when one
  is given), run the loop, consume the matching close tag.\<close>

definition loopTag ::
  "nat \<Rightarrow> ('a \<Rightarrow> state \<Rightarrow> ('a \<times> state) res) \<Rightarrow> string option \<Rightarrow> 'a \<Rightarrow> state
     \<Rightarrow> ('a \<times> state) res" where
  "loopTag n cb name acc st =
     andThen (case name of Some nm \<Rightarrow> expectName nm st | None \<Rightarrow> expect_opentag st)
       (\<lambda>(tag, st1).
          andThen (loopNodes n cb acc st1)
            (\<lambda>(acc1, st2).
               andThen (expectClose (fst tag) st2) (\<lambda>st3. Ok (acc1, st3))))"

text \<open>The loop of \<open>loopNodes\<close> stopped after at most \<open>j\<close> rounds: the accumulator and
  the state with which the next round would start.\<close>

fun loopRounds ::
  "nat \<Rightarrow> ('a \<Rightarrow> state \<Rightarrow> ('a \<times> state) res) \<Rightarrow> 'a \<Rightarrow> state \<Rightarrow> ('a \<times> state) res" where
  "loopRounds 0 cb acc st = Ok (acc, st)"
| "loopRounds (Suc j) cb acc st =
     (case pulley st of
        [] \<Rightarrow> Throw (ReaderError ''closetag'')
      | CloseTag nm # rest \<Rightarrow> Ok (acc, st)
      | _ \<Rightarrow> andThen (cb acc st) (\<lambda>(acc1, st1). loopRounds j cb acc1 st1))"

section \<open>The value parser\<close>

text \<open>\<^verbatim>\<open>checkAttribute(tag, name)\<close>, lines 19 to 23.\<close>

definition checkAttribute :: "string \<times> attrs \<Rightarrow> string \<Rightarrow> unit res" where
  "checkAttribute tag name =
     (if attr (snd tag) name = None then Throw (MissingAttribute (fst tag) name) else Ok ())"

text \<open>\<^verbatim>\<open>parseValueAttribute(pulley)\<close>, lines 405 to 412.\<close>

definition parseValueAttribute :: "state \<Rightarrow> (string \<times> state) res" where
  "parseValueAttribute st =
     andThen (expect_opentag st)
       (\<lambda>(tag, st1).
          andThen (expectClose (fst tag) st1)
            (\<lambda>st2.
               if \<not> strTruthy (attr (snd tag) ''value'')
               then Throw (MissingAttribute (fst tag) ''value'')
               else Ok (the (attr (snd tag) ''value''), st2)))"

text \<open>\<^verbatim>\<open>readStatic(tag)\<close>, lines 414 to 421.\<close>

definition readStatic :: "attrs \<Rightarrow> bool res" where
  "readStatic a =
     (case attr a ''static'' of
        None \<Rightarrow> Ok False
      | Some v \<Rightarrow>
          if v = ''0'' \<or> v = ''false'' then Ok False
          else if v = ''1'' \<or> v = ''true'' then Ok True
          else Throw (InvalidStatic v))"

text \<open>\<^verbatim>\<open>readInterpolation(tag)\<close>, lines 423 to 435.\<close>

definition readInterpolation :: "attrs \<Rightarrow> interpolation res" where
  "readInterpolation a =
     (case attr a ''interpolation'' of
        None \<Rightarrow> Ok UNDEFINED
      | Some v \<Rightarrow>
          if v = ''halt'' then Ok HALT
          else if v = ''constant'' then Ok CONSTANT
          else if v = ''linear'' then Ok LINEAR
          else if v = ''manual'' then Ok MANUAL
          else if v = ''auto'' then Ok TCB
          else if v = ''clamped'' then Ok CLAMPED
          else Throw (InvalidInterpolation v))"

text \<open>The end of \<^verbatim>\<open>parseValue\<close>, lines 400 to 402, reached by every case of the
  switch that leaves it with \<^verbatim>\<open>break\<close>.\<close>

definition finishValue :: "string \<Rightarrow> attrs \<Rightarrow> vdata \<Rightarrow> state \<Rightarrow> (value option \<times> state) res" where
  "finishValue name a d st =
     andThen (readStatic a)
       (\<lambda>s. andThen (readInterpolation a)
          (\<lambda>i. Ok (Some (Value name d (Some s) (Some i)), st)))"

text \<open>The first line of the callbacks of \<^verbatim>\<open>vector\<close> and \<^verbatim>\<open>color\<close>: the name of the
  child and the number in its text.\<close>

definition numberChild :: "state \<Rightarrow> ((string \<times> jsnum) \<times> state) res" where
  "numberChild st =
     andThen (expect_opentag st)
       (\<lambda>(tag, st1). case nextText st1 of (txt, st2) \<Rightarrow> Ok ((fst tag, parseFloat (fst txt)), st2))"

text \<open>The callback of the case \<^verbatim>\<open>vector\<close>, lines 252 to 262; \<open>vec\<close> holds the
  fields \<^verbatim>\<open>x\<close> and \<^verbatim>\<open>y\<close> of the vector under construction.\<close>

definition vectorChild ::
  "jsnum option \<times> jsnum option \<Rightarrow> state
     \<Rightarrow> ((jsnum option \<times> jsnum option) \<times> state) res" where
  "vectorChild vec st =
     andThen (numberChild st)
       (\<lambda>((name, v), st1).
          case vec of
            (x, y) \<Rightarrow>
              if name = ''x'' then
                andThen (expectClose name st1) (\<lambda>st2. Ok ((Some v, y), st2))
              else if name = ''y'' then
                andThen (expectClose name st1) (\<lambda>st2. Ok ((x, Some v), st2))
              else Throw (UnexpectedElement ''vector'' name))"

text \<open>The callback of the case \<^verbatim>\<open>color\<close>, lines 267 to 281.\<close>

definition colorChild ::
  "jsnum option \<times> jsnum option \<times> jsnum option \<times> jsnum option \<Rightarrow> state
     \<Rightarrow> ((jsnum option \<times> jsnum option \<times> jsnum option \<times> jsnum option) \<times> state) res" where
  "colorChild col st =
     andThen (numberChild st)
       (\<lambda>((name, v), st1).
          case col of
            (r, g, b, a) \<Rightarrow>
              if name = ''r'' then
                andThen (expectClose name st1) (\<lambda>st2. Ok ((Some v, g, b, a), st2))
              else if name = ''g'' then
                andThen (expectClose name st1) (\<lambda>st2. Ok ((r, Some v, b, a), st2))
              else if name = ''b'' then
                andThen (expectClose name st1) (\<lambda>st2. Ok ((r, g, Some v, a), st2))
              else if name = ''a'' then
                andThen (expectClose name st1) (\<lambda>st2. Ok ((r, g, b, Some v), st2))
              else Throw (UnexpectedElement ''color'' name))"

text \<open>
  The callback of the case \<^verbatim>\<open>segment\<close>, lines 286 to 305; \<open>pv\<close> is the recursive
  call \<^verbatim>\<open>parseValue(pulley, canvas)\<close>.  The four assignments are written to \<^verbatim>\<open>col\<close>,
  a constant of the block of the case \<^verbatim>\<open>color\<close> that is not in scope here (the segment
  is \<^verbatim>\<open>seg\<close>): evaluating any of them raises a reference error, and no path of the
  callback changes the segment.
\<close>

definition segmentChild ::
  "(state \<Rightarrow> (value option \<times> state) res) \<Rightarrow> unit \<Rightarrow> state \<Rightarrow> (unit \<times> state) res" where
  "segmentChild pv seg st =
     andThen (expect_opentag st)
       (\<lambda>(tag, st1).
          andThen (pv st1)
            (\<lambda>(v, st2).
               case v of
                 None \<Rightarrow> Throw ExpectedVectorInSegment
               | Some val \<Rightarrow>
                   if vtype val \<noteq> ''vector'' then Throw ExpectedVectorInSegment
                   else if fst tag = ''p1'' then Throw (ReferenceError ''col'')
                   else if fst tag = ''t1'' then Throw (ReferenceError ''col'')
                   else if fst tag = ''p2'' then Throw (ReferenceError ''col'')
                   else if fst tag = ''t2'' then Throw (ReferenceError ''col'')
                   else Throw (UnexpectedElement ''segment'' (fst tag))))"

text \<open>The callback of the case \<^verbatim>\<open>gradient\<close>, lines 310 to 316; \<open>stops\<close> are the
  stops added so far.  \<^verbatim>\<open>value.data\<close> is a type error when \<^verbatim>\<open>value\<close> is undefined.\<close>

definition gradientChild ::
  "(state \<Rightarrow> (value option \<times> state) res) \<Rightarrow> (jsnum \<times> vdata) list \<Rightarrow> state
     \<Rightarrow> ((jsnum \<times> vdata) list \<times> state) res" where
  "gradientChild pv stops st =
     andThen (checkName ''color'' st)
       (\<lambda>tag.
          andThen (pv st)
            (\<lambda>(v, st1).
               if \<not> strTruthy (attr (snd tag) ''pos'') then Throw GradientColorMissingPos
               else
                 (case v of
                    None \<Rightarrow> Throw (TypeError ''value'')
                  | Some val \<Rightarrow>
                      Ok (stops @ [(parseFloat (the (attr (snd tag) ''pos'')), vdata val)],
                          st1))))"

text \<open>The callback of the case \<^verbatim>\<open>transformation\<close>, lines 337 to 359; \<open>tr\<close> holds
  the fields \<^verbatim>\<open>offset\<close>, \<^verbatim>\<open>angle\<close>, \<^verbatim>\<open>skew\<close> and \<^verbatim>\<open>scale\<close>.  The field is assigned
  before the type of the value is checked.\<close>

definition transformationChild ::
  "(state \<Rightarrow> (value option \<times> state) res)
     \<Rightarrow> vdata option \<times> vdata option \<times> vdata option \<times> vdata option \<Rightarrow> state
     \<Rightarrow> ((vdata option \<times> vdata option \<times> vdata option \<times> vdata option) \<times> state) res" where
  "transformationChild pv tr st =
     andThen (expect_opentag st)
       (\<lambda>(tag, st1).
          andThen (pv st1)
            (\<lambda>(v, st2).
               case tr of
                 (off, ang, skew, scale) \<Rightarrow>
                   (let name = fst tag;
                        known = (name = ''offset'' \<or> name = ''angle'' \<or> name = ''skew_angle''
                                 \<or> name = ''scale'');
                        expectedType =
                          (if name = ''offset'' \<or> name = ''scale'' then ''vector'' else ''angle'')
                    in if \<not> known then Throw (UnexpectedElement ''transformation'' name)
                       else
                         (case v of
                            None \<Rightarrow> Throw (TypeError ''value'')
                          | Some val \<Rightarrow>
                              (let tr1 =
                                     (if name = ''offset''
                                      then (Some (vdata val), ang, skew, scale)
                                      else if name = ''angle''
                                      then (off, Some (vdata val), skew, scale)
                                      else if name = ''skew_angle''
                                      then (off, ang, Some (vdata val), scale)
                                      else (off, ang, skew, Some (vdata val)))
                               in if vtype val \<noteq> expectedType
                                  then Throw (TransformationType name expectedType (vtype val))
                                  else andThen (expectClose name st2)
                                         (\<lambda>st3. Ok (tr1, st3)))))))"

text \<open>The callback of the case \<^verbatim>\<open>list\<close>, lines 364 to 371.\<close>

definition listChild ::
  "(state \<Rightarrow> (value option \<times> state) res) \<Rightarrow> value list \<Rightarrow> state
     \<Rightarrow> (value list \<times> state) res" where
  "listChild pv items st =
     andThen (check_opentag st)
       (\<lambda>tag.
          andThen (pv st)
            (\<lambda>(v, st1).
               case v of
                 None \<Rightarrow> Throw (ExpectedListItem (fst tag))
               | Some val \<Rightarrow> Ok (items @ [val], st1)))"

text \<open>
  \<^verbatim>\<open>parseValue(pulley, canvas)\<close>, lines 227 to 403.  The result \<open>None\<close> is the
  \<^verbatim>\<open>undefined\<close> of a bare \<^verbatim>\<open>return\<close>.  The first argument is the fuel.
\<close>

fun parseValue :: "nat \<Rightarrow> nat \<Rightarrow> state \<Rightarrow> (value option \<times> state) res" where
  "parseValue 0 canvas st = OutOfFuel"
| "parseValue (Suc n) canvas st =
     andThen (check_opentag st)
       (\<lambda>(name, a).
          if name = ''real'' then
            andThen (parseValueAttribute st)
              (\<lambda>(v, st1). finishValue name a (Number (parseFloat v)) st1)
          else if name = ''time'' then
            andThen (parseValueAttribute st)
              (\<lambda>(v, st1).
                 case parseTime v None of
                   (t, ws) \<Rightarrow> finishValue name a (Number t) (warn ws st1))
          else if name = ''integer'' then
            andThen (parseValueAttribute st)
              (\<lambda>(v, st1). finishValue name a (Number (parseInt v)) st1)
          else if name = ''string'' then
            andThen (expectName name st)
              (\<lambda>(tag, st1).
                 case nextText st1 of
                   (txt, st2) \<Rightarrow>
                     andThen (expectClose name st2)
                       (\<lambda>st3. finishValue name a (Text (snd txt)) st3))
          else if name = ''vector'' then
            andThen (loopTag n vectorChild (Some ''vector'') (None, None) st)
              (\<lambda>((x, y), st1). finishValue name a (Vector x y) st1)
          else if name = ''color'' then
            andThen (loopTag n colorChild (Some ''color'') (None, None, None, None) st)
              (\<lambda>((r, g, b, al), st1). finishValue name a (Color r g b al) st1)
          else if name = ''segment'' then
            andThen (loopTag n (segmentChild (\<lambda>s. parseValue n canvas s)) (Some ''segment'')
                       () st)
              (\<lambda>(u, st1). finishValue name a (Segment None None None None) st1)
          else if name = ''gradient'' then
            andThen (loopTag n (gradientChild (\<lambda>s. parseValue n canvas s)) (Some ''gradient'')
                       [] st)
              (\<lambda>(stops, st1). finishValue name a (Gradient stops) st1)
          else if name = ''bool'' then
            andThen (parseValueAttribute st)
              (\<lambda>(v, st1).
                 if v = ''true'' \<or> v = ''1'' then finishValue name a (Boolean True) st1
                 else if v = ''false'' \<or> v = ''0'' then finishValue name a (Boolean False) st1
                 else Throw (BadBool v))
          else if name = ''angle'' \<or> name = ''degrees'' \<or> name = ''radians''
                  \<or> name = ''rotations'' then
            andThen (parseValueAttribute st)
              (\<lambda>(v, st1). finishValue name a (Radians (parseFloat v)) st1)
          else if name = ''transformation'' then
            andThen (loopTag n (transformationChild (\<lambda>s. parseValue n canvas s))
                       (Some ''transformation'') (None, None, None, None) st)
              (\<lambda>((off, ang, skew, scale), st1).
                 finishValue name a (Transformation off ang skew scale) st1)
          else if name = ''list'' then
            andThen (loopTag n (listChild (\<lambda>s. parseValue n canvas s)) None [] st)
              (\<lambda>(items, st1). Ok (Some (Value name (ListData items) None None), st1))
          else if name = ''bline_point'' then Ok (None, st)
          else if name = ''guid'' then Ok (None, st)
          else if name = ''width_point'' then Ok (None, st)
          else if name = ''dash_item'' then Ok (None, st)
          else if name = ''canvas'' then Ok (None, st)
          else finishValue name a Undefined st)"

text \<open>The tag names whose case of the switch ends with \<^verbatim>\<open>break\<close>, lines 232 to 361.\<close>

definition breakVariant :: "string \<Rightarrow> bool" where
  "breakVariant name =
     (name = ''real'' \<or> name = ''time'' \<or> name = ''integer'' \<or> name = ''string''
      \<or> name = ''vector'' \<or> name = ''color'' \<or> name = ''segment'' \<or> name = ''gradient''
      \<or> name = ''bool'' \<or> name = ''angle'' \<or> name = ''degrees'' \<or> name = ''radians''
      \<or> name = ''rotations'' \<or> name = ''transformation'')"

text \<open>The tag names whose case is a bare \<^verbatim>\<open>return\<close>, lines 374 to 393.\<close>

definition placeholder :: "string \<Rightarrow> bool" where
  "placeholder name =
     (name = ''bline_point'' \<or> name = ''guid'' \<or> name = ''width_point''
      \<or> name = ''dash_item'' \<or> name = ''canvas'')"

section \<open>Keyframes, metadata, layers\<close>

text \<open>
  \<^verbatim>\<open>parseKeyframe(pulley, canvas)\<close>, lines 437 to 451.  The record is what
  \<^verbatim>\<open>Keyframe.create(time, active, description)\<close> is given.  Without a canvas the frame
  rate is \<^verbatim>\<open>undefined\<close>.
\<close>

definition parseKeyframe :: "nat option \<Rightarrow> state \<Rightarrow> (keyframe \<times> state) res" where
  "parseKeyframe canvas st =
     andThen (expectName ''keyframe'' st)
       (\<lambda>(tag, st1).
          andThen (checkAttribute tag ''time'')
            (\<lambda>u.
               let fps = (case canvas of Some c \<Rightarrow> cFps (canvases st1 c) | None \<Rightarrow> None);
                   time = the (attr (snd tag) ''time'');
                   active = attr (snd tag) ''active''
               in case parseTime time fps of
                    (t, ws) \<Rightarrow>
                      (case nextText (warn ws st1) of
                         (txt, st2) \<Rightarrow>
                           andThen (expectClose ''keyframe'' st2)
                             (\<lambda>st3.
                                Ok (\<lparr>kTime = t,
                                     kActive = (active \<noteq> Some ''false'' \<and> active \<noteq> Some ''0''),
                                     kDesc = fst txt\<rparr>,
                                    st3)))))"

definition updCanvas :: "nat \<Rightarrow> (canvas \<Rightarrow> canvas) \<Rightarrow> state \<Rightarrow> state" where
  "updCanvas c f st = st\<lparr>canvases := (canvases st)(c := f (canvases st c))\<rparr>"

text \<open>\<^verbatim>\<open>parseMetaInto(pulley, canvas)\<close>, lines 453 to 474.\<close>

definition parseMetaInto :: "nat \<Rightarrow> state \<Rightarrow> state res" where
  "parseMetaInto canvas st =
     andThen (expectName ''meta'' st)
       (\<lambda>(tag, st1).
          andThen (checkAttribute tag ''name'')
            (\<lambda>u. andThen (checkAttribute tag ''content'')
               (\<lambda>u.
                  let name = the (attr (snd tag) ''name'');
                      content0 = the (attr (snd tag) ''content'');
                      content =
                        (if name \<in> set [''background_first_color'', ''background_second_color'',
                                          ''background_size'', ''grid_color'', ''grid_size'',
                                          ''jack_offset'']
                         then map (\<lambda>c. if c = CHR '','' then CHR ''.'' else c) content0
                         else content0)
                  in expectClose ''meta''
                       (updCanvas canvas
                          (\<lambda>cv. cv\<lparr>cMetadata := (cMetadata cv)(name \<mapsto> content)\<rparr>) st1))))"

text \<open>\<^verbatim>\<open>parseLayer(pulley, canvas)\<close>, lines 476 to 478.\<close>

definition parseLayer :: "nat \<Rightarrow> state \<Rightarrow> (objref \<times> state) res" where
  "parseLayer canvas st = Throw LayerNotImplemented"

section \<open>The collaborators that are not in the file\<close>

text \<open>
  The modules \<^verbatim>\<open>guid.js\<close> and \<^verbatim>\<open>types/canvas.js\<close> and the parsers of the structural
  value nodes are used by the loader but are not part of the sources.  Their functions
  that the specification does not determine are parameters of the model:
  \<^item> \<open>guid_xor\<close> is \<^verbatim>\<open>Guid.xor(guid, rootGuid)\<close> and \<open>guid_generate\<close> the stream of
    ids of \<^verbatim>\<open>Guid.generate()\<close>;
  \<^item> \<open>canvas_create\<close> is the object of \<^verbatim>\<open>Canvas.create()\<close>,
    \<open>canvas_childCanvas\<close> is \<^verbatim>\<open>Canvas.childCanvas(parent, id)\<close>, which allocates a
    canvas, and \<open>canvas_getRoot\<close> is \<^verbatim>\<open>Canvas.getRoot(canvas)\<close>;
  \<^item> \<open>parseAnimated\<close>, \<open>parseStaticList\<close>, \<open>parseDynamicList\<close> and
    \<open>parseLinkableValueNode\<close> are the parsers of that name, called with the canvas.
\<close>

record ext =
  guid_xor :: "string \<Rightarrow> string option \<Rightarrow> string"
  guid_generate :: "nat \<Rightarrow> string"
  canvas_create :: canvas
  canvas_childCanvas :: "nat option \<Rightarrow> string option \<Rightarrow> state \<Rightarrow> (nat \<times> state) res"
  canvas_getRoot :: "(nat \<Rightarrow> canvas) \<Rightarrow> nat \<Rightarrow> nat"
  parseAnimated :: "nat \<Rightarrow> state \<Rightarrow> (objref \<times> state) res"
  parseStaticList :: "nat \<Rightarrow> state \<Rightarrow> (objref \<times> state) res"
  parseDynamicList :: "nat \<Rightarrow> state \<Rightarrow> (objref \<times> state) res"
  parseLinkableValueNode :: "nat \<Rightarrow> state \<Rightarrow> (objref option \<times> state) res"

text \<open>
  Modelled from the spec: the reference registry of the module \<^verbatim>\<open>guid.js\<close>, which is
  not in the sources (section 4.1): \<open>exists\<close>, \<open>get\<close> (which fails when the id is
  absent), \<open>set\<close> (which overwrites) and \<open>generate\<close>.
\<close>

definition Guid_exists :: "string \<Rightarrow> state \<Rightarrow> bool" where
  "Guid_exists g st = (registry st g \<noteq> None)"

definition Guid_get :: "string \<Rightarrow> state \<Rightarrow> objref res" where
  "Guid_get g st = (case registry st g of Some obj \<Rightarrow> Ok obj | None \<Rightarrow> Throw (NotFound g))"

definition Guid_set :: "string \<Rightarrow> objref \<Rightarrow> state \<Rightarrow> state" where
  "Guid_set g obj st = st\<lparr>registry := (registry st)(g \<mapsto> obj)\<rparr>"

definition Guid_generate :: "ext \<Rightarrow> state \<Rightarrow> string \<times> state" where
  "Guid_generate ex st = (guid_generate ex (guidCount st), st\<lparr>guidCount := Suc (guidCount st)\<rparr>)"

text \<open>
  Modelled from the spec: \<^verbatim>\<open>Canvas.addKeyframe\<close>, \<^verbatim>\<open>Canvas.addValueNode\<close> and
  \<^verbatim>\<open>Canvas.addLayer\<close> of the module \<^verbatim>\<open>types/canvas.js\<close>, which is not in the sources
  (section 3): a canvas holds an ordered sequence of keyframes, a mapping from string id
  to value node, and an ordered sequence of layers.
\<close>

definition Canvas_addKeyframe :: "nat \<Rightarrow> keyframe \<Rightarrow> state \<Rightarrow> state" where
  "Canvas_addKeyframe c kf st = updCanvas c (\<lambda>cv. cv\<lparr>cKeyframes := cKeyframes cv @ [kf]\<rparr>) st"

definition Canvas_addValueNode :: "nat \<Rightarrow> objref \<Rightarrow> string \<Rightarrow> state \<Rightarrow> state" where
  "Canvas_addValueNode c node i st =
     updCanvas c (\<lambda>cv. cv\<lparr>cValueNodes := (cValueNodes cv)(i \<mapsto> node)\<rparr>) st"

definition Canvas_addLayer :: "nat \<Rightarrow> objref \<Rightarrow> state \<Rightarrow> state" where
  "Canvas_addLayer c layer st = updCanvas c (\<lambda>cv. cv\<lparr>cLayers := cLayers cv @ [layer]\<rparr>) st"

text \<open>Allocation of a new object.\<close>

definition allocNode :: "valueNode \<Rightarrow> state \<Rightarrow> objref \<times> state" where
  "allocNode v st =
     (NodeRef (nextRef st), st\<lparr>nodes := (nodes st)(nextRef st := v), nextRef := Suc (nextRef st)\<rparr>)"

definition allocCanvas :: "canvas \<Rightarrow> state \<Rightarrow> nat \<times> state" where
  "allocCanvas cv st =
     (nextRef st, st\<lparr>canvases := (canvases st)(nextRef st := cv), nextRef := Suc (nextRef st)\<rparr>)"

section \<open>The value-node parser and the canvas parser\<close>

text \<open>The table of lines 197 to 206, from tag name to parser.\<close>

definition nodeParser :: "ext \<Rightarrow> string \<Rightarrow> (nat \<Rightarrow> state \<Rightarrow> (objref \<times> state) res) option" where
  "nodeParser ex name =
     (if name = ''hermite'' \<or> name = ''animated'' then Some (parseAnimated ex)
      else if name = ''static_list'' then Some (parseStaticList ex)
      else if name = ''dynamic_list'' \<or> name = ''bline'' \<or> name = ''wplist''
              \<or> name = ''dilist'' \<or> name = ''weighted_average'' then Some (parseDynamicList ex)
      else None)"

text \<open>\<^verbatim>\<open>Canvas.getRoot(canvas).guid\<close>.\<close>

definition rootGuid :: "ext \<Rightarrow> state \<Rightarrow> nat \<Rightarrow> string option" where
  "rootGuid ex st canvas = cGuid (canvases st (canvas_getRoot ex (canvases st) canvas))"

text \<open>
  The reference handling of \<^verbatim>\<open>parseValueNode\<close>, lines 182 to 191.  The result is
  \<open>Inl obj\<close> when the function returns the registered object \<open>obj\<close> at once, after
  skipping the element, and \<open>Inr guid\<close> when it goes on with that id.
\<close>

definition valueNodeGuid ::
  "ext \<Rightarrow> nat \<Rightarrow> attrs \<Rightarrow> state \<Rightarrow> ((objref + string) \<times> state) res" where
  "valueNodeGuid ex canvas a st =
     (if strTruthy (attr a ''guid'') then
        (let guid = guid_xor ex (the (attr a ''guid'')) (rootGuid ex st canvas)
         in if Guid_exists guid st then
              andThen (skipTag st)
                (\<lambda>st1. andThen (Guid_get guid st1) (\<lambda>obj. Ok (Inl obj, st1)))
            else Ok (Inr guid, st))
      else (case Guid_generate ex st of (guid, st1) \<Rightarrow> Ok (Inr guid, st1)))"

text \<open>The end of \<^verbatim>\<open>parseValueNode\<close>, lines 218 to 224.\<close>

definition registerNode :: "nat \<Rightarrow> attrs \<Rightarrow> string \<Rightarrow> objref \<Rightarrow> state \<Rightarrow> (objref \<times> state) res" where
  "registerNode canvas a guid node st =
     (let st1 = (if strTruthy (attr a ''id'')
                 then Canvas_addValueNode canvas node (the (attr a ''id'')) st
                 else st)
      in Ok (node, Guid_set guid node st1))"

text \<open>
  The creation of the canvas, lines 44 to 51.  In the second branch the source passes
  its own local \<^verbatim>\<open>canvas\<close>, declared on line 44 and not assigned yet, to
  \<^verbatim>\<open>Canvas.childCanvas\<close>: the first argument is \<^verbatim>\<open>undefined\<close>, not \<^verbatim>\<open>parent\<close>.
\<close>

definition createCanvas ::
  "ext \<Rightarrow> nat option \<Rightarrow> bool \<Rightarrow> attrs \<Rightarrow> state \<Rightarrow> (nat \<times> state) res" where
  "createCanvas ex parent inline a st =
     (if inline \<or> parent = None then
        Ok (allocCanvas ((canvas_create ex)\<lparr>cParent := parent\<rparr>) st)
      else canvas_childCanvas ex None (attr a ''id'') st)"

text \<open>A step of the attribute handling: \<open>f\<close> runs on the value of the attribute when
  the attribute is truthy.\<close>

definition whenAttr :: "attrs \<Rightarrow> string \<Rightarrow> (string \<Rightarrow> 'a \<Rightarrow> 'a res) \<Rightarrow> 'a \<Rightarrow> 'a res" where
  "whenAttr a n f x = (if strTruthy (attr a n) then f (the (attr a n)) x else Ok x)"

text \<open>A list of exactly \<open>k\<close> numbers separated by spaces, for the attribute \<open>n\<close>.\<close>

definition numberList :: "string \<Rightarrow> nat \<Rightarrow> string \<Rightarrow> jsnum list res" where
  "numberList n k v =
     (let vals = split CHR '' '' v
      in if length vals \<noteq> k then Throw (WrongArity n k (length vals))
         else Ok (map parseFloat vals))"

text \<open>
  The scalar attributes of a canvas, lines 54 to 114, in the order of the source.  The
  result is the canvas and the warnings of the timestamp parser.
\<close>

definition canvasAttributes ::
  "bool \<Rightarrow> attrs \<Rightarrow> canvas \<times> warning list \<Rightarrow> (canvas \<times> warning list) res" where
  "canvasAttributes inline a cw =
     andThen (if \<not> inline then whenAttr a ''id'' (\<lambda>v (c, ws). Ok (c\<lparr>cId := Some v\<rparr>, ws)) cw
              else Ok cw) (\<lambda>cw.
     andThen (whenAttr a ''version'' (\<lambda>v (c, ws). Ok (c\<lparr>cVersion := Some v\<rparr>, ws)) cw) (\<lambda>cw.
     andThen (whenAttr a ''width''
                (\<lambda>v (c, ws). if jless (parseInt v) (Num 1) then Throw CanvasTooSmall
                             else Ok (c\<lparr>cWidth := Some (parseInt v)\<rparr>, ws)) cw) (\<lambda>cw.
     andThen (whenAttr a ''height''
                (\<lambda>v (c, ws). if jless (parseInt v) (Num 1) then Throw CanvasTooSmall
                             else Ok (c\<lparr>cHeight := Some (parseInt v)\<rparr>, ws)) cw) (\<lambda>cw.
     andThen (whenAttr a ''xres'' (\<lambda>v (c, ws). Ok (c\<lparr>cXres := Some (parseFloat v)\<rparr>, ws)) cw) (\<lambda>cw.
     andThen (whenAttr a ''yres'' (\<lambda>v (c, ws). Ok (c\<lparr>cYres := Some (parseFloat v)\<rparr>, ws)) cw) (\<lambda>cw.
     andThen (whenAttr a ''fps'' (\<lambda>v (c, ws). Ok (c\<lparr>cFps := Some (parseFloat v)\<rparr>, ws)) cw) (\<lambda>cw.
     andThen (if strTruthy (attr a ''begin-time'') \<or> strTruthy (attr a ''start-time'') then
                (case cw of
                   (c, ws) \<Rightarrow>
                     (case parseTime
                             (if strTruthy (attr a ''begin-time'') then the (attr a ''begin-time'')
                              else the (attr a ''start-time''))
                             (cFps c) of
                        (t, ws1) \<Rightarrow> Ok (c\<lparr>cTimeStart := Some t\<rparr>, ws @ ws1)))
              else Ok cw) (\<lambda>cw.
     andThen (whenAttr a ''end-time''
                (\<lambda>v (c, ws). case parseTime v (cFps c) of
                               (t, ws1) \<Rightarrow> Ok (c\<lparr>cTimeEnd := Some t\<rparr>, ws @ ws1)) cw) (\<lambda>cw.
     andThen (whenAttr a ''antialias''
                (\<lambda>v (c, ws). Ok (c\<lparr>cAntialias := Some (parseInt v)\<rparr>, ws)) cw) (\<lambda>cw.
     andThen (whenAttr a ''view-box''
                (\<lambda>v (c, ws). andThen (numberList ''view-box'' 4 v)
                   (\<lambda>xs. Ok (c\<lparr>cTl := Some (xs ! 0, xs ! 1), cBr := Some (xs ! 2, xs ! 3)\<rparr>, ws)))
                cw) (\<lambda>cw.
     andThen (whenAttr a ''bgcolor''
                (\<lambda>v (c, ws). andThen (numberList ''bgcolor'' 4 v)
                   (\<lambda>xs. Ok (c\<lparr>cBgcolor := Some (xs ! 0, xs ! 1, xs ! 2, xs ! 3)\<rparr>, ws)))
                cw) (\<lambda>cw.
     whenAttr a ''focus''
       (\<lambda>v (c, ws). andThen (numberList ''focus'' 2 v)
          (\<lambda>xs. Ok (c\<lparr>cFocus := Some (xs ! 0, xs ! 1)\<rparr>, ws)))
       cw))))))))))))"

text \<open>
  The callback of the loop over the children of a canvas, lines 116 to 163; \<open>pdefs\<close> is
  the call \<^verbatim>\<open>parseCanvasDefs(pulley, canvas)\<close>.
\<close>

definition canvasChild ::
  "(state \<Rightarrow> state res) \<Rightarrow> bool \<Rightarrow> nat \<Rightarrow> state \<Rightarrow> state res" where
  "canvasChild pdefs inline canvas st =
     andThen (check_opentag st)
       (\<lambda>(name, a).
          if name = ''defs'' then
            (if inline then Throw InlineDefs else pdefs st)
          else if name = ''bones'' then skipTag (warn [BonesUnsupported] st)
          else if name = ''keyframe'' then
            (if inline then skipTag (warn [InlineNoKeyframes] st)
             else andThen (parseKeyframe (Some canvas) st)
                    (\<lambda>(kf, st1). Ok (Canvas_addKeyframe canvas kf st1)))
          else if name = ''meta'' then
            (if inline then skipTag (warn [InlineNoMetadata] st)
             else parseMetaInto canvas st)
          else if name = ''name'' \<or> name = ''desc'' \<or> name = ''author'' then
            andThen (expectName name st)
              (\<lambda>(tag, st1).
                 case nextText st1 of
                   (txt, st2) \<Rightarrow>
                     expectClose name
                       (updCanvas canvas
                          (\<lambda>cv. if name = ''name'' then cv\<lparr>cName := Some (fst txt)\<rparr>
                                else if name = ''desc'' then cv\<lparr>cDesc := Some (fst txt)\<rparr>
                                else cv\<lparr>cAuthor := Some (fst txt)\<rparr>) st2))
          else if name = ''layer'' then
            andThen (parseLayer canvas st)
              (\<lambda>(layer, st1). Ok (Canvas_addLayer canvas layer st1))
          else Throw (UnexpectedElement ''canvas'' name))"

text \<open>
  \<^verbatim>\<open>parseValueNode(pulley, canvas)\<close>, lines 179 to 225, \<^verbatim>\<open>parseCanvas(pulley, parent,
  inline)\<close>, lines 36 to 166, and \<^verbatim>\<open>parseCanvasDefs(pulley, canvas)\<close>, lines 168 to 177.
  The first argument is the fuel.
\<close>

fun parseValueNode :: "nat \<Rightarrow> ext \<Rightarrow> nat \<Rightarrow> state \<Rightarrow> (objref \<times> state) res"
  and parseCanvas :: "nat \<Rightarrow> ext \<Rightarrow> nat option \<Rightarrow> bool \<Rightarrow> state \<Rightarrow> (objref \<times> state) res"
  and parseCanvasDefs :: "nat \<Rightarrow> ext \<Rightarrow> nat \<Rightarrow> state \<Rightarrow> state res" where
  "parseValueNode 0 ex canvas st = OutOfFuel"
| "parseValueNode (Suc n) ex canvas st =
     andThen (check_opentag st)
       (\<lambda>(name, a).
          andThen (valueNodeGuid ex canvas a st)
            (\<lambda>(g, st1).
               case g of
                 Inl obj \<Rightarrow> Ok (obj, st1)
               | Inr guid \<Rightarrow>
                   andThen
                     (andThen (if name \<noteq> ''canvas'' then parseValue n canvas st1
                               else Ok (None, st1))
                        (\<lambda>(v, st2).
                           case v of
                             Some val \<Rightarrow> Ok (allocNode (VNConst val) st2)
                           | None \<Rightarrow>
                               (case nodeParser ex name of
                                  Some parser \<Rightarrow> parser canvas st2
                                | None \<Rightarrow>
                                    andThen (parseLinkableValueNode ex canvas st2)
                                      (\<lambda>(r, st3).
                                         case r of
                                           Some node \<Rightarrow> Ok (node, st3)
                                         | None \<Rightarrow>
                                             if name = ''canvas'' then
                                               andThen (parseCanvas n ex (Some canvas) True st3)
                                                 (\<lambda>(c, st4).
                                                    Ok (allocNode
                                                          (VNConst
                                                             (Value ''canvas'' (CanvasData c)
                                                                None None))
                                                          st4))
                                             else Throw (ExpectedValueNode name)))))
                     (\<lambda>(node, st5). registerNode canvas a guid node st5)))"
| "parseCanvas 0 ex parent inline st = OutOfFuel"
| "parseCanvas (Suc n) ex parent inline st =
     andThen (checkName ''canvas'' st)
       (\<lambda>(name, a).
          if strTruthy (attr a ''guid'') \<and> Guid_exists (the (attr a ''guid'')) st then
            andThen (skipTag st)
              (\<lambda>st1. andThen (Guid_get (the (attr a ''guid'')) st1) (\<lambda>obj. Ok (obj, st1)))
          else
            andThen (createCanvas ex parent inline a st)
              (\<lambda>(c, st1).
                 case (if strTruthy (attr a ''guid'') then (the (attr a ''guid''), st1)
                       else Guid_generate ex st1) of
                   (guid, st2) \<Rightarrow>
                     (let st3 = Guid_set guid (CanvasRef c)
                                  (updCanvas c (\<lambda>cv. cv\<lparr>cGuid := Some guid\<rparr>) st2)
                      in andThen (canvasAttributes inline a (canvases st3 c, []))
                           (\<lambda>(cv, ws).
                              andThen
                                (loopTag n
                                   (\<lambda>u s. andThen
                                             (canvasChild (\<lambda>s1. parseCanvasDefs n ex c s1)
                                                inline c s)
                                             (\<lambda>s2. Ok (u, s2)))
                                   (Some ''canvas'') ()
                                   (warn ws (updCanvas c (\<lambda>x. cv) st3)))
                                (\<lambda>(u, st4). Ok (CanvasRef c, st4))))))"
| "parseCanvasDefs 0 ex canvas st = OutOfFuel"
| "parseCanvasDefs (Suc n) ex canvas st =
     andThen
       (loopTag n
          (\<lambda>u s. andThen (check_opentag s)
                    (\<lambda>(name, a).
                       if name = ''canvas'' then
                         andThen (parseCanvas n ex (Some canvas) False s)
                           (\<lambda>(c, s1). Ok (u, s1))
                       else
                         andThen (parseValueNode n ex canvas s)
                           (\<lambda>(node, s1). Ok (u, s1))))
          (Some ''defs'') () st)
       (\<lambda>(u, st1). Ok st1)"

text \<open>
  The three parts of \<^verbatim>\<open>parseCanvas\<close> on a canvas element that is not an alias of a
  registered object, named so that properties of the whole function can be stated:
  lines 44 to 114 (the canvas is created, registered and given its attributes; the
  result is the address of the canvas and the state in which the loop over the children
  starts), the callback of the loop of lines 116 to 163, and the end of the loop with
  the return of line 165.
\<close>

definition canvasStart :: "ext \<Rightarrow> nat option \<Rightarrow> bool \<Rightarrow> attrs \<Rightarrow> state \<Rightarrow> (nat \<times> state) res" where
  "canvasStart ex parent inline a st =
     andThen (createCanvas ex parent inline a st)
       (\<lambda>(c, st1).
          case (if strTruthy (attr a ''guid'') then (the (attr a ''guid''), st1)
                else Guid_generate ex st1) of
            (guid, st2) \<Rightarrow>
              (let st3 = Guid_set guid (CanvasRef c)
                           (updCanvas c (\<lambda>cv. cv\<lparr>cGuid := Some guid\<rparr>) st2)
               in andThen (canvasAttributes inline a (canvases st3 c, []))
                    (\<lambda>(cv, ws). Ok (c, warn ws (updCanvas c (\<lambda>x. cv) st3)))))"

definition canvasCallback ::
  "nat \<Rightarrow> ext \<Rightarrow> bool \<Rightarrow> nat \<Rightarrow> unit \<Rightarrow> state \<Rightarrow> (unit \<times> state) res" where
  "canvasCallback n ex inline c u s =
     andThen (canvasChild (\<lambda>s1. parseCanvasDefs n ex c s1) inline c s) (\<lambda>s2. Ok (u, s2))"

definition canvasEnd :: "nat \<Rightarrow> unit \<times> state \<Rightarrow> (objref \<times> state) res" where
  "canvasEnd c r = andThen (expectClose ''canvas'' (snd r)) (\<lambda>s. Ok (CanvasRef c, s))"

text \<open>\<^verbatim>\<open>loadSif(file)\<close>, lines 26 to 33, on the nodes the reader makes of the file.\<close>

definition emptyCanvas :: canvas where
  "emptyCanvas =
     \<lparr>cParent = None, cGuid = None, cId = None, cVersion = None, cWidth = None,
      cHeight = None, cXres = None, cYres = None, cFps = None, cTimeStart = None,
      cTimeEnd = None, cAntialias = None, cTl = None, cBr = None, cBgcolor = None,
      cFocus = None, cName = None, cDesc = None, cAuthor = None, cKeyframes = [],
      cValueNodes = Map.empty, cMetadata = Map.empty, cLayers = []\<rparr>"

definition startState :: "node list \<Rightarrow> state" where
  "startState ns =
     \<lparr>pulley = ns, registry = Map.empty, canvases = (\<lambda>r. emptyCanvas),
      nodes = (\<lambda>r. VNOther []), nextRef = 0, guidCount = 0, warnings = []\<rparr>"

definition loadSif :: "nat \<Rightarrow> ext \<Rightarrow> node list \<Rightarrow> (objref \<times> state) res" where
  "loadSif fuel ex file = parseCanvas fuel ex None False (startState file)"

section \<open>An instance of the collaborators\<close>

text \<open>
  Modelled from the spec: \<^verbatim>\<open>Guid.xor\<close> of the module \<^verbatim>\<open>guid.js\<close>, which is not in the
  sources (section 4.1, \<^verbatim>\<open>scopeTransform\<close>): it combines a local reference id with the
  id of the owning root canvas.  Here the two ids are combined digit by digit, as
  hexadecimal numbers; an id is unchanged when the root has none.
\<close>

definition hexXor :: "char \<Rightarrow> char \<Rightarrow> char" where
  "hexXor x y = ''0123456789abcdef'' ! ((digitVal x XOR digitVal y) mod 16)"

definition xorGuid :: "string \<Rightarrow> string option \<Rightarrow> string" where
  "xorGuid g rt = (case rt of None \<Rightarrow> g | Some r \<Rightarrow> map (\<lambda>(x, y). hexXor x y) (zip g r))"

text \<open>
  Modelled from the spec: \<^verbatim>\<open>Guid.generate\<close> of the module \<^verbatim>\<open>guid.js\<close>, which is not
  in the sources (section 4.1): a fresh id when an element has none.  The \<open>n\<close>-th id
  generated is a \<^verbatim>\<open>g\<close> followed by \<open>n\<close> strokes, which no hexadecimal id equals.
\<close>

definition genGuid :: "nat \<Rightarrow> string" where
  "genGuid n = CHR ''g'' # replicate n CHR ''|''"

text \<open>
  Modelled from the spec: \<^verbatim>\<open>Canvas.childCanvas\<close> and \<^verbatim>\<open>Canvas.getRoot\<close> of the module
  \<^verbatim>\<open>types/canvas.js\<close>, which is not in the sources (sections 3 and 4.5): a child
  canvas is linked to the parent it is given and keyed by the string id; the root of a
  canvas is reached by following the links to the parent.  A parent is allocated before
  its children, so a chain of parents from the address \<open>c\<close> has at most \<open>c\<close> links.
\<close>

definition childCanvas :: "nat option \<Rightarrow> string option \<Rightarrow> state \<Rightarrow> (nat \<times> state) res" where
  "childCanvas parent i st = Ok (allocCanvas (emptyCanvas\<lparr>cParent := parent, cId := i\<rparr>) st)"

fun rootFrom :: "nat \<Rightarrow> (nat \<Rightarrow> canvas) \<Rightarrow> nat \<Rightarrow> nat" where
  "rootFrom 0 cs c = c"
| "rootFrom (Suc k) cs c = (case cParent (cs c) of None \<Rightarrow> c | Some p \<Rightarrow> rootFrom k cs p)"

definition getRoot :: "(nat \<Rightarrow> canvas) \<Rightarrow> nat \<Rightarrow> nat" where
  "getRoot cs c = rootFrom c cs c"

text \<open>
  The collaborators as the file has them.  The four parsers of structural value nodes are
  not defined in the file and not imported: the table of lines 197 to 206 names
  \<^verbatim>\<open>parseAnimated\<close> first, so building it raises a reference error for that name
  whenever \<^verbatim>\<open>parseValueNode\<close> gets there, whatever the tag.
\<close>

definition fileExt :: ext where
  "fileExt =
     \<lparr>guid_xor = xorGuid, guid_generate = genGuid, canvas_create = emptyCanvas,
      canvas_childCanvas = childCanvas, canvas_getRoot = getRoot,
      parseAnimated = (\<lambda>c st. Throw (ReferenceError ''parseAnimated'')),
      parseStaticList = (\<lambda>c st. Throw (ReferenceError ''parseAnimated'')),
      parseDynamicList = (\<lambda>c st. Throw (ReferenceError ''parseAnimated'')),
      parseLinkableValueNode = (\<lambda>c st. Throw (ReferenceError ''parseAnimated''))\<rparr>"

text \<open>The value of the variable \<^verbatim>\<open>guid\<close> of \<^verbatim>\<open>parseValueNode\<close> after lines 182 to
  191: the transformed id of the element, or a generated one.\<close>

definition nodeGuid :: "ext \<Rightarrow> nat \<Rightarrow> attrs \<Rightarrow> state \<Rightarrow> string" where
  "nodeGuid ex canvas a st =
     (if strTruthy (attr a ''guid'')
      then guid_xor ex (the (attr a ''guid'')) (rootGuid ex st canvas)
      else guid_generate ex (guidCount st))"

section \<open>Sample documents\<close>

text \<open>The nodes of \<^verbatim>\<open><vector><x>x</x><y>y</y></vector>\<close>.\<close>

definition vectorElement :: "string \<Rightarrow> string \<Rightarrow> node list" where
  "vectorElement x y =
     [OpenTag ''vector'' [],
      OpenTag ''x'' [], TextNode x x, CloseTag ''x'',
      OpenTag ''y'' [], TextNode y y, CloseTag ''y'',
      CloseTag ''vector'']"

text \<open>The nodes of a segment with the four children \<^verbatim>\<open>p1\<close>, \<^verbatim>\<open>t1\<close>, \<^verbatim>\<open>p2\<close>, \<^verbatim>\<open>t2\<close>,
  each holding a vector.\<close>

definition segmentElement :: "node list" where
  "segmentElement =
     [OpenTag ''segment'' []]
     @ [OpenTag ''p1'' []] @ vectorElement ''0'' ''0'' @ [CloseTag ''p1'']
     @ [OpenTag ''t1'' []] @ vectorElement ''1'' ''0'' @ [CloseTag ''t1'']
     @ [OpenTag ''p2'' []] @ vectorElement ''2'' ''2'' @ [CloseTag ''p2'']
     @ [OpenTag ''t2'' []] @ vectorElement ''0'' ''1'' @ [CloseTag ''t2'']
     @ [CloseTag ''segment'']"

text \<open>
  Two definitions of a value node that carry the same reference id, in a root canvas
  with the id \<^verbatim>\<open>ab\<close>: the state before the first is parsed, and the state after.
\<close>

definition sharedStart :: state where
  "sharedStart =
     snd (allocCanvas (emptyCanvas\<lparr>cGuid := Some ''ab''\<rparr>)
            (startState
               [OpenTag ''real'' [(''guid'', ''12''), (''value'', ''1.5'')], CloseTag ''real'',
                OpenTag ''real'' [(''guid'', ''12''), (''value'', ''7'')], CloseTag ''real'']))"

definition sharedNext :: state where
  "sharedNext =
     Guid_set ''b9'' (NodeRef 1)
       (snd (allocNode
               (VNConst (Value ''real'' (Number (Num (3 / 2))) (Some False) (Some UNDEFINED)))
               (sharedStart
                  \<lparr>pulley := [OpenTag ''real'' [(''guid'', ''12''), (''value'', ''7'')],
                              CloseTag ''real'']\<rparr>)))"

text \<open>An inline canvas with a keyframe and a name, after a parent canvas at address 0.\<close>

definition inlineStart :: state where
  "inlineStart =
     snd (allocCanvas emptyCanvas
            (startState
               [OpenTag ''canvas'' [],
                OpenTag ''keyframe'' [(''time'', ''1s'')], TextNode ''k'' ''k'',
                CloseTag ''keyframe'',
                OpenTag ''name'' [], TextNode ''n'' ''n'', CloseTag ''name'',
                CloseTag ''canvas'']))"

text \<open>An inline canvas with a name and a \<^verbatim>\<open>defs\<close> element, after a parent canvas at
  address 0.\<close>

definition inlineDefsStart :: state where
  "inlineDefsStart =
     snd (allocCanvas emptyCanvas
            (startState
               [OpenTag ''canvas'' [],
                OpenTag ''name'' [], TextNode ''n'' ''n'', CloseTag ''name'',
                OpenTag ''defs'' [], CloseTag ''defs'',
                CloseTag ''canvas'']))"

text \<open>A document: a root canvas with a keyframe and two definitions of a value node
  that carry the same reference id.\<close>

definition sampleFile :: "node list" where
  "sampleFile =
     [OpenTag ''canvas'' [(''guid'', ''ab''), (''fps'', ''25''), (''end-time'', ''50'')],
      OpenTag ''keyframe'' [(''time'', ''10f''), (''active'', ''maybe'')],
      TextNode ''k'' ''k'', CloseTag ''keyframe'',
      OpenTag ''defs'' [],
      OpenTag ''real'' [(''guid'', ''12''), (''value'', ''1.5''), (''id'', ''r'')],
      CloseTag ''real'',
      OpenTag ''real'' [(''guid'', ''12''), (''value'', ''7'')], CloseTag ''real'',
      CloseTag ''defs'',
      CloseTag ''canvas'']"

section \<open>Properties of the timestamp parser\<close>

lemmas number_defs = parseFloat_def parseInt_def toNumber_def strDecimal_def
  unsignedDecimal_def exponentPart_def radixVal_def digitVal_def isDigit_def isHexDigit_def
  isWhite_def trim_def orZero_def regexExec_def indexOf_def

lemma regexExec_chars:
  assumes "regexExec s = Some m" and "c \<in> set m"
  shows "c = CHR ''-'' \<or> c = CHR ''.'' \<or> isDigit c"
  using assms unfolding regexExec_def Let_def
  by (auto dest: set_takeWhileD split: if_splits)

lemma set_split: "p \<in> set (split c s) \<Longrightarrow> set p \<subseteq> set s"
proof (induction s arbitrary: p)
  case Nil then show ?case by simp
next
  case (Cons x xs)
  show ?case
  proof (cases "x = c")
    case True
    with Cons show ?thesis by auto
  next
    case False
    show ?thesis
    proof (cases "split c xs")
      case Nil
      with Cons.prems False show ?thesis by simp
    next
      case (Cons a list)
      with Cons.prems False have "p = x # a \<or> p \<in> set list" by simp
      then show ?thesis
      proof
        assume "p = x # a"
        moreover have "set a \<subseteq> set xs" using Cons.IH [of a] Cons by simp
        ultimately show ?thesis by auto
      next
        assume "p \<in> set list"
        then have "set p \<subseteq> set xs" using Cons.IH [of p] Cons by simp
        then show ?thesis by auto
      qed
    qed
  qed
qed

lemma split_nonempty: "split c s \<noteq> []"
  by (induction s) (auto split: list.splits)






text \<open>The examples of the specification, and the four lenient cases with their
  warnings.\<close>

lemma parseTime_examples:
  "parseTime ''5s'' None = (Num 5, [])"
  "parseTime ''2m30s'' None = (Num 150, [])"
  "parseTime ''1h'' None = (Num 3600, [])"
  "parseTime ''10f'' (Some (Num 25)) = (Num (2 / 5), [])"
  "parseTime ''10f'' None = (Num 0, [FramesButFpsUnknown ''10f''])"
  "parseTime ''5'' None = (Num 5, [NoUnitNoFpsAssumingSeconds ''5''])"
  "parseTime ''5x'' None = (Num 5, [UnexpectedUnitCode ''5x'' CHR ''x''])"
  "parseTime ''1:2'' None = (Num 2, [BadTimeFormat ''1:2'', NoUnitNoFpsAssumingSeconds ''1:2''])"
  "parseTime ''BOT'' (Some (Num 7)) = (Num (- 32767 * 512), [])"
  by (simp_all add: parseTime_def toLowerCase_def lowerChar_def parseTime_loop.simps Let_def
        colonTime_def number_defs)

text \<open>The loop reaches the first colon of the stamp, whatever comes before it, and with
  at least three colon fields it returns there.\<close>

lemma regexExec_prefix:
  assumes "regexExec s = Some m"
  shows "\<exists>r. s = m @ r"
proof -
  define sg where "sg = (if s \<noteq> [] \<and> hd s = CHR ''-'' then ''-'' else [])"
  define r1 where "r1 = drop (length sg) s"
  define dot where "dot = (if dropWhile isDigit r1 \<noteq> [] \<and> hd (dropWhile isDigit r1) = CHR ''.''
                           then ''.'' else [])"
  define r3 where "r3 = drop (length dot) (dropWhile isDigit r1)"
  have m: "m = sg @ takeWhile isDigit r1 @ dot @ takeWhile isDigit r3"
    using assms unfolding regexExec_def Let_def sg_def r1_def dot_def r3_def by simp
  have a: "s = sg @ r1"
    unfolding r1_def sg_def by (cases s) auto
  have b: "dropWhile isDigit r1 = dot @ r3"
    unfolding r3_def dot_def by (cases "dropWhile isDigit r1") auto
  have "s = sg @ takeWhile isDigit r1 @ dot @ takeWhile isDigit r3 @ dropWhile isDigit r3"
    using a b takeWhile_dropWhile_id [of isDigit r1] takeWhile_dropWhile_id [of isDigit r3]
    by metis
  then have "s = m @ dropWhile isDigit r3"
    unfolding m by (simp only: append_assoc)
  then show ?thesis ..
qed

lemma split_no_separator: "c \<notin> set s \<Longrightarrow> split c s = [s]"
  by (induction s) auto

lemma colonTime_fst: "fst (colonTime parts fps stamp ws) = fst (colonTime parts fps stamp [])"
  by (simp add: colonTime_def Let_def)

lemma parseTime_loop_colon:
  assumes parts: "3 \<le> length (split CHR '':'' stamp)"
      and pos: "pos \<le> length (takeWhile (\<lambda>x. x \<noteq> CHR '':'') stamp)"
  shows "fst (parseTime_loop stamp fps pos val ws)
           = fst (colonTime (split CHR '':'' stamp) fps stamp [])"
proof -
  define i where "i = length (takeWhile (\<lambda>x. x \<noteq> CHR '':'') stamp)"
  have mem: "CHR '':'' \<in> set stamp"
    using parts split_no_separator [of "CHR '':''" stamp] by fastforce
  have i_less: "i < length stamp"
  proof -
    have "dropWhile (\<lambda>x. x \<noteq> CHR '':'') stamp \<noteq> []"
      using mem by (simp add: dropWhile_eq_Nil_conv)
    moreover have "length stamp = i + length (dropWhile (\<lambda>x. x \<noteq> CHR '':'') stamp)"
      unfolding i_def
      using takeWhile_dropWhile_id [of "\<lambda>x. x \<noteq> CHR '':''" stamp] length_append
      by metis
    ultimately show ?thesis by simp
  qed
  have at_i: "stamp ! i = CHR '':''"
    using nth_length_takeWhile [of "\<lambda>x. x \<noteq> CHR '':''" stamp] i_less unfolding i_def by simp
  have before: "\<And>j. j < i \<Longrightarrow> stamp ! j \<noteq> CHR '':''"
  proof -
    fix j assume j: "j < i"
    then have "takeWhile (\<lambda>x. x \<noteq> CHR '':'') stamp ! j = stamp ! j"
      unfolding i_def by (rule takeWhile_nth)
    moreover have "takeWhile (\<lambda>x. x \<noteq> CHR '':'') stamp ! j
                     \<in> set (takeWhile (\<lambda>x. x \<noteq> CHR '':'') stamp)"
      using j unfolding i_def by simp
    ultimately show "stamp ! j \<noteq> CHR '':''" using set_takeWhileD by fastforce
  qed
  from pos have "pos \<le> i" unfolding i_def .
  then show ?thesis
  proof (induction "i - pos" arbitrary: pos val ws rule: less_induct)
    case less
    obtain m where m: "regexExec (drop pos stamp) = Some m"
      by (simp add: regexExec_def Let_def)
    from regexExec_prefix [OF m] obtain r where r: "drop pos stamp = m @ r" ..
    have le: "pos + length m \<le> i"
    proof (rule ccontr)
      assume "\<not> pos + length m \<le> i"
      then have k: "i - pos < length m" using less.prems by simp
      have "stamp ! i = drop pos stamp ! (i - pos)"
        using less.prems i_less by simp
      also have "\<dots> = m ! (i - pos)" using r k by (simp add: nth_append)
      finally have "CHR '':'' \<in> set m" using at_i k by (metis nth_mem)
      from regexExec_chars [OF m this] show False by (simp add: isDigit_def)
    qed
    then have lt: "pos + length m < length stamp" and pl: "pos < length stamp"
      using i_less by simp_all
    show ?case
    proof (cases "pos + length m = i")
      case True
      then have code: "stamp ! (pos + length m) = CHR '':''" using at_i by simp
      show ?thesis
        apply (subst parseTime_loop.simps)
        using pl lt m code parts colonTime_fst [of "split CHR '':'' stamp" fps stamp ws]
        apply (simp add: Let_def)
        done
    next
      case False
      with le have l2: "pos + length m < i" by simp
      then have code: "stamp ! (pos + length m) \<noteq> CHR '':''" by (rule before)
      have IH: "\<And>val1 ws1. fst (parseTime_loop stamp fps (Suc (pos + length m)) val1 ws1)
                  = fst (colonTime (split CHR '':'' stamp) fps stamp [])"
        using less.hyps [of "Suc (pos + length m)"] l2 by simp
      show ?thesis
        apply (subst parseTime_loop.simps)
        using pl lt m code
        apply (simp add: Let_def IH)
        done
    qed
  qed
qed










text \<open>
  Claim C7, as stated, fails when the stamp has four colon fields: the text after the
  dot of the seconds field is pushed at the end of the fields, behind the frames field
  that is there already, and is not read.
\<close>

theorem parseTime_four_fields:
  "parseTime ''0:1:30.500:7'' (Some (Num 24)) = (Num (0 * 3600 + 1 * 60 + 30 + 7 / 24), [])
   \<and> fst (parseTime ''0:1:30.500:7'' (Some (Num 24))) \<noteq> Num (0 * 3600 + 1 * 60 + 30 + 500 / 24)"
proof -
  have "parseTime ''0:1:30.500:7'' (Some (Num 24)) = (Num (0 * 3600 + 1 * 60 + 30 + 7 / 24), [])"
    by (simp add: parseTime_def toLowerCase_def lowerChar_def parseTime_loop.simps Let_def
          colonTime_def number_defs)
  then show ?thesis by simp
qed

text \<open>
  Claim C7, amended.  With a nonzero frame rate and exactly three colon fields, a dot in
  the seconds field splits it: the text before the dot is the seconds, and the text after
  the dot, read as a number, is a frame count that is divided by the frame rate; so
  \<^verbatim>\<open>parseTime("00:01:30.500", 24)\<close> is \<open>0 * 3600 + 1 * 60 + 30 + 500 / 24\<close>.  With four
  or more colon fields the frame count is the fourth field: the text after a dot of the
  seconds field is cut off and contributes nothing.
\<close>

theorem parseTime_colon_fraction:
  assumes "numTruthy fps"
  shows "(split CHR '':'' (toLowerCase stamp) = [h, m, s] \<and> indexOf CHR ''.'' s = Some dot
          \<longrightarrow> fst (parseTime stamp (Some fps))
               = jadd (jadd (jadd (jmul (orZero (toNumber h)) (Num 3600))
                                  (jmul (orZero (toNumber m)) (Num 60)))
                            (orZero (toNumber (take dot s))))
                      (jdiv (orZero (toNumber (drop (dot + 1) s))) fps))
       \<and> (split CHR '':'' (toLowerCase stamp) = h # m # s # f # others
          \<longrightarrow> fst (parseTime stamp (Some fps))
               = jadd (jadd (jadd (jmul (orZero (toNumber h)) (Num 3600))
                                  (jmul (orZero (toNumber m)) (Num 60)))
                            (orZero (toNumber (case indexOf CHR ''.'' s of
                                                 Some d \<Rightarrow> take d s | None \<Rightarrow> s))))
                      (jdiv (orZero (toNumber f)) fps))"
proof (intro conjI impI)
  let ?l = "toLowerCase stamp"
  assume a: "split CHR '':'' ?l = [h, m, s] \<and> indexOf CHR ''.'' s = Some dot"
  then have ne: "?l \<noteq> ''sot''" "?l \<noteq> ''bot''" "?l \<noteq> ''eot''" by auto
  have "fst (parseTime stamp (Some fps)) = fst (parseTime_loop ?l fps 0 (Num 0) [])"
    using ne assms by (simp add: parseTime_def orZero_def)
  also have "\<dots> = fst (colonTime (split CHR '':'' ?l) fps ?l [])"
    using a by (intro parseTime_loop_colon) simp_all
  also have "\<dots> = jadd (jadd (jadd (jmul (orZero (toNumber h)) (Num 3600))
                              (jmul (orZero (toNumber m)) (Num 60)))
                        (orZero (toNumber (take dot s))))
                  (jdiv (orZero (toNumber (drop (dot + 1) s))) fps)"
    using a assms by (simp add: colonTime_def Let_def)
  finally show "fst (parseTime stamp (Some fps))
               = jadd (jadd (jadd (jmul (orZero (toNumber h)) (Num 3600))
                                  (jmul (orZero (toNumber m)) (Num 60)))
                            (orZero (toNumber (take dot s))))
                      (jdiv (orZero (toNumber (drop (dot + 1) s))) fps)" .
next
  let ?l = "toLowerCase stamp"
  assume a: "split CHR '':'' ?l = h # m # s # f # others"
  then have ne: "?l \<noteq> ''sot''" "?l \<noteq> ''bot''" "?l \<noteq> ''eot''" by auto
  have "fst (parseTime stamp (Some fps)) = fst (parseTime_loop ?l fps 0 (Num 0) [])"
    using ne assms by (simp add: parseTime_def orZero_def)
  also have "\<dots> = fst (colonTime (split CHR '':'' ?l) fps ?l [])"
    using a by (intro parseTime_loop_colon) simp_all
  also have "\<dots> = jadd (jadd (jadd (jmul (orZero (toNumber h)) (Num 3600))
                                  (jmul (orZero (toNumber m)) (Num 60)))
                            (orZero (toNumber (case indexOf CHR ''.'' s of
                                                 Some d \<Rightarrow> take d s | None \<Rightarrow> s))))
                      (jdiv (orZero (toNumber f)) fps)"
    using a assms by (simp add: colonTime_def Let_def split: option.splits)
  finally show "fst (parseTime stamp (Some fps))
               = jadd (jadd (jadd (jmul (orZero (toNumber h)) (Num 3600))
                                  (jmul (orZero (toNumber m)) (Num 60)))
                            (orZero (toNumber (case indexOf CHR ''.'' s of
                                                 Some d \<Rightarrow> take d s | None \<Rightarrow> s))))
                      (jdiv (orZero (toNumber f)) fps)" .
qed

theorem parseTime_colon_fraction_witness:
  "split CHR '':'' (toLowerCase ''00:01:30.500'') = [''00'', ''01'', ''30.500'']
   \<and> indexOf CHR ''.'' ''30.500'' = Some 2
   \<and> numTruthy (Num 24)
   \<and> fst (parseTime ''00:01:30.500'' (Some (Num 24)))
       = Num (0 * 3600 + 1 * 60 + 30 + 500 / 24)
   \<and> split CHR '':'' (toLowerCase ''0:1:30.500:12'') = [''0'', ''1'', ''30.500'', ''12'']
   \<and> fst (parseTime ''0:1:30.500:12'' (Some (Num 24)))
       = Num (0 * 3600 + 1 * 60 + 30 + 12 / 24)"
proof -
  have a: "split CHR '':'' (toLowerCase ''00:01:30.500'') = [''00'', ''01'', ''30.500'']"
    by (simp add: toLowerCase_def lowerChar_def)
  have b: "indexOf CHR ''.'' ''30.500'' = Some 2" by (simp add: indexOf_def)
  have c: "numTruthy (Num 24)" by simp
  from parseTime_colon_fraction [OF c, of "''00:01:30.500''" "''00''" "''01''" "''30.500''" 2] a b
  have x: "fst (parseTime ''00:01:30.500'' (Some (Num 24)))
          = Num (0 * 3600 + 1 * 60 + 30 + 500 / 24)"
    by (simp add: number_defs)
  have d: "split CHR '':'' (toLowerCase ''0:1:30.500:12'') = [''0'', ''1'', ''30.500'', ''12'']"
    by (simp add: toLowerCase_def lowerChar_def)
  from parseTime_colon_fraction [OF c, of "''0:1:30.500:12''" "''0''" "''1''" "''30.500''" _
                                   "''12''" "[]"] d
  have y: "fst (parseTime ''0:1:30.500:12'' (Some (Num 24)))
          = Num (0 * 3600 + 1 * 60 + 30 + 12 / 24)"
    by (simp add: number_defs)
  from a b c x d y show ?thesis by blast
qed

section \<open>Auxiliary facts\<close>

lemmas reader_defs = check_opentag_def expect_opentag_def checkName_def expectName_def
  expectClose_def nextText_def skipTag_def loopTag_def attr_def strTruthy_def warn_def

lemmas value_defs = parseValueAttribute_def readStatic_def readInterpolation_def
  finishValue_def numberChild_def vectorChild_def colorChild_def segmentChild_def
  gradientChild_def transformationChild_def listChild_def

lemma andThen_Ok: "andThen m f = Ok y \<longleftrightarrow> (\<exists>x. m = Ok x \<and> f x = Ok y)"
  by (cases m) auto





lemma parseValue_time:
  assumes "pulley st = OpenTag ''time'' a # rest"
  shows "parseValue (Suc n) canvas st =
     andThen (parseValueAttribute st)
       (\<lambda>(v, st1). finishValue ''time'' a (Number (fst (parseTime v None)))
                      (warn (snd (parseTime v None)) st1))"
  using assms by (simp add: check_opentag_def case_prod_beta)














lemma parseValue_placeholder:
  assumes "pulley st = OpenTag name a # rest" and "placeholder name"
  shows "parseValue (Suc n) canvas st = Ok (None, st)"
  using assms(2) unfolding placeholder_def
proof (elim disjE)
qed (use assms(1) in \<open>simp_all add: check_opentag_def\<close>)

lemma parseValue_default:
  assumes "pulley st = OpenTag name a # rest"
      and "\<not> breakVariant name" and "name \<noteq> ''list''" and "\<not> placeholder name"
  shows "parseValue (Suc n) canvas st = finishValue name a Undefined st"
  using assms by (simp add: check_opentag_def breakVariant_def placeholder_def)



section \<open>Properties of the value parser\<close>

text \<open>
  Claim C2.  The claim is that \<open>parseValue\<close> returns a non-value for every tag name that
  is not a value literal, the unrecognized names included.  The five placeholder names do
  return \<open>None\<close> (\<open>parseValue_placeholder\<close>), but the default case of the switch leaves
  it with \<^verbatim>\<open>break\<close>, so an unrecognized name runs into the common end of
  the function (\<open>parseValue_default\<close>): for the element \<^verbatim>\<open><hermite>\<close> the result is a
  value object of type \<^verbatim>\<open>hermite\<close>, and no node is consumed.
\<close>

theorem parseValue_unrecognized_tag:
  "parseValue (Suc 0) 0 (startState [OpenTag ''hermite'' [], CloseTag ''hermite''])
     = Ok (Some (Value ''hermite'' Undefined (Some False) (Some UNDEFINED)),
           startState [OpenTag ''hermite'' [], CloseTag ''hermite''])"
  by (simp add: startState_def reader_defs value_defs)




text \<open>
  Claim C4.  The claim is that a segment whose four children \<^verbatim>\<open>p1\<close>, \<^verbatim>\<open>t1\<close>, \<^verbatim>\<open>p2\<close>,
  \<^verbatim>\<open>t2\<close> each hold a vector parses to a segment value with those four control points.
  The callback assigns the control points to \<^verbatim>\<open>col\<close>, which is not in scope, instead of
  \<^verbatim>\<open>seg\<close>: on such a segment the parse raises a reference error at the first child.
\<close>

theorem parseValue_segment_throws:
  "parseValue (Suc (Suc (Suc (Suc (Suc 0))))) 0 (startState segmentElement) = Throw (ReferenceError ''col'')"
  by (simp add: startState_def segmentElement_def vectorElement_def reader_defs value_defs number_defs)

text \<open>
  Claim C9.  For a literal \<^verbatim>\<open>time\<close> element the timestamp parser is called with no
  frame rate: the value is \<open>parseTime v None\<close>, which is the parse at the frame rate 0,
  whatever the canvas and its frame rate are (the canvas does not occur on the right).
  In the witness the canvas has 25 frames per second and \<^verbatim>\<open>10f\<close> still parses to 0 with
  the warning of an unknown frame rate, where the canvas's own rate would give 2/5.
\<close>

theorem parseValue_time_without_fps:
  assumes "pulley st = OpenTag ''time'' a # CloseTag ''time'' # rest"
      and "attr a ''value'' = Some v" and "v \<noteq> []"
  shows "parseValue (Suc n) canvas st
           = finishValue ''time'' a (Number (fst (parseTime v None)))
               (warn (snd (parseTime v None)) (st\<lparr>pulley := rest\<rparr>))
         \<and> parseTime v None = parseTime v (Some (Num 0))"
proof
  have "parseValueAttribute st = Ok (v, st\<lparr>pulley := rest\<rparr>)"
    using assms
    by (simp add: parseValueAttribute_def expect_opentag_def expectClose_def strTruthy_def)
  then show "parseValue (Suc n) canvas st
           = finishValue ''time'' a (Number (fst (parseTime v None)))
               (warn (snd (parseTime v None)) (st\<lparr>pulley := rest\<rparr>))"
    by (simp add: parseValue_time [OF assms(1)] del: parseValue.simps)
next
  show "parseTime v None = parseTime v (Some (Num 0))"
    by (simp add: parseTime_def orZero_def)
qed

theorem parseValue_time_without_fps_witness:
  "cFps (canvases (updCanvas 0 (\<lambda>c. c\<lparr>cFps := Some (Num 25)\<rparr>)
                     (startState [OpenTag ''time'' [(''value'', ''10f'')], CloseTag ''time''])) 0)
     = Some (Num 25)
   \<and> attr [(''value'', ''10f'')] ''value'' = Some ''10f''
   \<and> parseValue (Suc 0) 0
        (updCanvas 0 (\<lambda>c. c\<lparr>cFps := Some (Num 25)\<rparr>)
           (startState [OpenTag ''time'' [(''value'', ''10f'')], CloseTag ''time'']))
       = Ok (Some (Value ''time'' (Number (Num 0)) (Some False) (Some UNDEFINED)),
             warn [FramesButFpsUnknown ''10f'']
               (updCanvas 0 (\<lambda>c. c\<lparr>cFps := Some (Num 25)\<rparr>) (startState [])))
   \<and> parseTime ''10f'' (Some (Num 25)) = (Num (2 / 5), [])"
proof -
  let ?st = "updCanvas 0 (\<lambda>c. c\<lparr>cFps := Some (Num 25)\<rparr>)
               (startState [OpenTag ''time'' [(''value'', ''10f'')], CloseTag ''time''])"
  have f: "cFps (canvases ?st 0) = Some (Num 25)"
    by (simp add: updCanvas_def startState_def)
  have p: "pulley ?st = OpenTag ''time'' [(''value'', ''10f'')] # CloseTag ''time'' # []"
    by (simp add: updCanvas_def startState_def)
  have v: "attr [(''value'', ''10f'')] ''value'' = Some ''10f''" by (simp add: attr_def)
  have t0: "parseTime ''10f'' None = (Num 0, [FramesButFpsUnknown ''10f''])"
    by (simp add: parseTime_def toLowerCase_def lowerChar_def parseTime_loop.simps Let_def
          number_defs)
  have t25: "parseTime ''10f'' (Some (Num 25)) = (Num (2 / 5), [])"
    by (simp add: parseTime_def toLowerCase_def lowerChar_def parseTime_loop.simps Let_def
          number_defs)
  have "parseValue (Suc 0) 0 ?st
       = Ok (Some (Value ''time'' (Number (Num 0)) (Some False) (Some UNDEFINED)),
             warn [FramesButFpsUnknown ''10f'']
               (updCanvas 0 (\<lambda>c. c\<lparr>cFps := Some (Num 25)\<rparr>) (startState [])))"
    using parseValue_time_without_fps [OF p v, of 0 0]
    by (simp add: t0 value_defs attr_def updCanvas_def startState_def warn_def
          del: parseValue.simps)
  with f v t25 show ?thesis by blast
qed

section \<open>Properties of the keyframe parser\<close>

text \<open>
  Claim C10.  For a \<^verbatim>\<open>keyframe\<close> element, only the attribute \<^verbatim>\<open>time\<close> is required:
  without it the parse fails, with it (and a well-formed element) the parse succeeds; and
  the active flag of every parsed keyframe is true exactly when the attribute \<^verbatim>\<open>active\<close>
  is neither \<^verbatim>\<open>false\<close> nor \<^verbatim>\<open>0\<close>, so an absent attribute and an unrecognized value
  both give an active keyframe.
\<close>

theorem parseKeyframe_active:
  assumes "pulley st = OpenTag ''keyframe'' a # rest"
  shows "(attr a ''time'' = None \<longrightarrow>
            parseKeyframe canvas st = Throw (MissingAttribute ''keyframe'' ''time''))
       \<and> (attr a ''time'' \<noteq> None
            \<and> (rest = CloseTag ''keyframe'' # r \<or> rest = TextNode t raw # CloseTag ''keyframe'' # r)
          \<longrightarrow> (\<exists>kf st1. parseKeyframe canvas st = Ok (kf, st1)))
       \<and> (\<forall>kf st1. parseKeyframe canvas st = Ok (kf, st1) \<longrightarrow>
            kActive kf = (attr a ''active'' \<noteq> Some ''false'' \<and> attr a ''active'' \<noteq> Some ''0''))"
proof (intro conjI impI allI)
  assume "attr a ''time'' = None"
  then show "parseKeyframe canvas st = Throw (MissingAttribute ''keyframe'' ''time'')"
    using assms by (simp add: parseKeyframe_def expectName_def checkAttribute_def)
next
  assume h: "attr a ''time'' \<noteq> None
             \<and> (rest = CloseTag ''keyframe'' # r \<or> rest = TextNode t raw # CloseTag ''keyframe'' # r)"
  then show "\<exists>kf st1. parseKeyframe canvas st = Ok (kf, st1)"
    using assms
    by (auto simp add: parseKeyframe_def expectName_def checkAttribute_def Let_def nextText_def
          warn_def expectClose_def split: prod.splits)
next
  fix kf st1
  assume "parseKeyframe canvas st = Ok (kf, st1)"
  then show "kActive kf = (attr a ''active'' \<noteq> Some ''false'' \<and> attr a ''active'' \<noteq> Some ''0'')"
    using assms
    by (auto simp add: parseKeyframe_def expectName_def andThen_Ok Let_def
          split: prod.splits if_splits)
qed

theorem parseKeyframe_active_witness:
  "pulley (startState [OpenTag ''keyframe'' [(''time'', ''1s''), (''active'', ''maybe'')],
                       TextNode ''k'' ''k'', CloseTag ''keyframe''])
     = OpenTag ''keyframe'' [(''time'', ''1s''), (''active'', ''maybe'')]
         # [TextNode ''k'' ''k'', CloseTag ''keyframe'']
   \<and> attr [(''time'', ''1s''), (''active'', ''maybe'')] ''time'' \<noteq> None
   \<and> (\<exists>kf st1.
         parseKeyframe None
           (startState [OpenTag ''keyframe'' [(''time'', ''1s''), (''active'', ''maybe'')],
                        TextNode ''k'' ''k'', CloseTag ''keyframe'']) = Ok (kf, st1)
         \<and> kActive kf)"
proof -
  let ?a = "[(''time'', ''1s''), (''active'', ''maybe'')]"
  let ?st = "startState [OpenTag ''keyframe'' ?a, TextNode ''k'' ''k'', CloseTag ''keyframe'']"
  have p: "pulley ?st = OpenTag ''keyframe'' ?a # [TextNode ''k'' ''k'', CloseTag ''keyframe'']"
    by (simp add: startState_def)
  have t: "attr ?a ''time'' \<noteq> None" by (simp add: attr_def)
  have act: "attr ?a ''active'' \<noteq> Some ''false'' \<and> attr ?a ''active'' \<noteq> Some ''0''"
    by (simp add: attr_def)
  note k = parseKeyframe_active [OF p, where canvas = None and r = "[]" and t = "''k''"
                                   and raw = "''k''"]
  from k t obtain kf st1 where ok: "parseKeyframe None ?st = Ok (kf, st1)" by blast
  with k act have "kActive kf" by blast
  with p t ok show ?thesis by blast
qed

section \<open>Properties of the canvas parser\<close>

text \<open>
  Whatever \<^verbatim>\<open>Canvas.childCanvas\<close> does, a canvas parsed with a parent and not inline is
  created by a call that is not given the parent.
\<close>

lemma createCanvas_child:
  "createCanvas ex (Some p) False a st = canvas_childCanvas ex None (attr a ''id'') st"
  by (simp add: createCanvas_def)

text \<open>
  Claim C5.  The claim is that a canvas parsed with a parent and \<open>inline\<close> false is a
  child canvas linked to that parent.  Line 50 passes the still unassigned local
  \<^verbatim>\<open>canvas\<close> to \<^verbatim>\<open>Canvas.childCanvas\<close>, not \<^verbatim>\<open>parent\<close>: with a \<^verbatim>\<open>childCanvas\<close> that
  links the child to the canvas it is given, the canvas parsed under the parent at
  address 0 has no parent.
\<close>

theorem parseCanvas_child_not_linked:
  "andThen
     (parseCanvas (Suc (Suc 0)) fileExt (Some 0) False
        (snd (allocCanvas emptyCanvas
                (startState [OpenTag ''canvas'' [(''id'', ''c1'')], CloseTag ''canvas'']))))
     (\<lambda>(c, st). Ok (c, cParent (canvases st 1), cId (canvases st 1)))
   = Ok (CanvasRef 1, None, Some ''c1'')"
  by (simp add: allocCanvas_def startState_def reader_defs createCanvas_def fileExt_def
        childCanvas_def Guid_exists_def Guid_generate_def Guid_set_def updCanvas_def
        canvasAttributes_def whenAttr_def emptyCanvas_def)

text \<open>What the callback of the loop does with a \<^verbatim>\<open>defs\<close> and with a \<^verbatim>\<open>keyframe\<close>
  element, by the flag \<open>inline\<close>.\<close>

lemma canvasChild_defs_keyframe:
  assumes "pulley st = OpenTag name a # rest"
  shows "(name = ''defs'' \<longrightarrow>
            canvasChild pdefs True canvas st = Throw InlineDefs
          \<and> canvasChild pdefs False canvas st = pdefs st)
       \<and> (name = ''keyframe'' \<longrightarrow>
            canvasChild pdefs True canvas st
              = (case skipNodes 0 rest of
                   Some rest1 \<Rightarrow> Ok ((warn [InlineNoKeyframes] st)\<lparr>pulley := rest1\<rparr>)
                 | None \<Rightarrow> Throw (ReaderError ''closetag''))
          \<and> canvasChild pdefs False canvas st
              = andThen (parseKeyframe (Some canvas) st)
                  (\<lambda>(kf, st1). Ok (Canvas_addKeyframe canvas kf st1)))"
  using assms
  by (auto simp add: canvasChild_def check_opentag_def skipTag_def warn_def
        split: option.splits)

lemma andThen_assoc: "andThen (andThen m f) g = andThen m (\<lambda>x. andThen (f x) g)"
  by (cases m) simp_all

text \<open>Once \<open>j\<close> rounds of the loop have run, the loop goes on from the state they
  leave.\<close>

lemma loopRounds_loopNodes:
  assumes "loopRounds j cb acc st = Ok (acc1, st1)"
  shows "loopNodes (j + Suc k) cb acc st = loopNodes (Suc k) cb acc1 st1"
  using assms
proof (induction j arbitrary: acc st)
  case 0
  then show ?case by simp
next
  case (Suc j)
  show ?case
  proof (cases "pulley st")
    case Nil
    with Suc.prems show ?thesis by simp
  next
    case (Cons x xs)
    show ?thesis
    proof (cases x)
      case (CloseTag nm)
      with Suc.prems Cons show ?thesis by simp
    next
      case (OpenTag nm a)
      with Suc.prems Cons obtain acc2 st2 where c: "cb acc st = Ok (acc2, st2)"
        and r: "loopRounds j cb acc2 st2 = Ok (acc1, st1)"
        by (auto simp: andThen_Ok)
      from Suc.IH [OF r] c Cons OpenTag show ?thesis by simp
    next
      case (TextNode t raw)
      with Suc.prems Cons obtain acc2 st2 where c: "cb acc st = Ok (acc2, st2)"
        and r: "loopRounds j cb acc2 st2 = Ok (acc1, st1)"
        by (auto simp: andThen_Ok)
      from Suc.IH [OF r] c Cons TextNode show ?thesis by simp
    qed
  qed
qed

text \<open>\<^verbatim>\<open>parseCanvas\<close> on a canvas element that is not an alias: the start, then the loop
  over the children with the callback that carries the flag \<open>inline\<close> of the call, then
  the close tag.\<close>

lemma parseCanvas_loop:
  assumes "pulley st = OpenTag ''canvas'' a # r"
      and "\<not> (strTruthy (attr a ''guid'') \<and> Guid_exists (the (attr a ''guid'')) st)"
      and "canvasStart ex parent inline a st = Ok (c, s0)"
      and "pulley s0 = OpenTag ''canvas'' a0 # rest0"
  shows "parseCanvas (Suc n) ex parent inline st
           = andThen (loopNodes n (canvasCallback n ex inline c) () (s0\<lparr>pulley := rest0\<rparr>))
               (canvasEnd c)"
proof (cases "createCanvas ex parent inline a st")
  case (Ok x)
  obtain c1 st1 where x: "x = (c1, st1)" by (cases x)
  obtain guid st2 where g: "(if strTruthy (attr a ''guid'') then (the (attr a ''guid''), st1)
                              else Guid_generate ex st1) = (guid, st2)"
    by (cases "if strTruthy (attr a ''guid'') then (the (attr a ''guid''), st1)
               else Guid_generate ex st1") auto
  define st3 where "st3 = Guid_set guid (CanvasRef c1)
                           (updCanvas c1 (\<lambda>cv. cv\<lparr>cGuid := Some guid\<rparr>) st2)"
  have "andThen (canvasAttributes inline a (canvases st3 c1, []))
          (\<lambda>(cv, ws). Ok (c1, warn ws (updCanvas c1 (\<lambda>x. cv) st3))) = Ok (c, s0)"
    using assms(3) unfolding canvasStart_def Ok x
    by (simp add: g Let_def st3_def)
  then obtain cv ws
    where at: "canvasAttributes inline a (canvases st3 c1, []) = Ok (cv, ws)"
      and c1: "c1 = c" and s0: "s0 = warn ws (updCanvas c1 (\<lambda>x. cv) st3)"
    unfolding andThen_Ok by auto
  have ck: "checkName ''canvas'' st = Ok (''canvas'', a)"
    using assms(1) by (simp add: checkName_def)
  have lt: "loopTag n (canvasCallback n ex inline c) (Some ''canvas'') () s0
              = andThen (loopNodes n (canvasCallback n ex inline c) () (s0\<lparr>pulley := rest0\<rparr>))
                  (\<lambda>(acc1, st2). andThen (expectClose ''canvas'' st2) (\<lambda>st3. Ok (acc1, st3)))"
    using assms(4) by (simp add: loopTag_def expectName_def)
  have ng: "(strTruthy (attr a ''guid'') \<and> Guid_exists (the (attr a ''guid'')) st) = False"
    using assms(2) by simp
  have "parseCanvas (Suc n) ex parent inline st
          = andThen (loopTag n (canvasCallback n ex inline c) (Some ''canvas'') () s0)
              (\<lambda>(u, st4). Ok (CanvasRef c, st4))"
    using assms(2)
    by (auto simp add: ck Ok x g at c1 [symmetric] canvasCallback_def [abs_def]
          st3_def [symmetric] s0 Let_def simp del: parseCanvasDefs.simps)
  also have "\<dots> = andThen (loopNodes n (canvasCallback n ex inline c) () (s0\<lparr>pulley := rest0\<rparr>))
               (canvasEnd c)"
  proof -
    have fin: "andThen (andThen (expectClose ''canvas'' s) (\<lambda>st3. Ok (u, st3)))
                 (\<lambda>(u, st4). Ok (CanvasRef c, st4)) = canvasEnd c (u, s)" for u :: unit and s
      by (cases "expectClose ''canvas'' s") (simp_all add: canvasEnd_def)
    show ?thesis
      unfolding lt
      by (cases "loopNodes n (canvasCallback n ex inline c) () (s0\<lparr>pulley := rest0\<rparr>)")
         (auto simp: fin)
  qed
  finally show ?thesis .
next
  case (Throw e)
  with assms(3) show ?thesis by (simp add: canvasStart_def)
next
  case OutOfFuel
  with assms(3) show ?thesis by (simp add: canvasStart_def)
qed

text \<open>
  Claim C8.  In an inline canvas a \<^verbatim>\<open>defs\<close> child aborts the parse with an error, and a
  \<^verbatim>\<open>keyframe\<close> child does not: its subtree is skipped, a warning is printed, and the
  parse goes on with the nodes after it.  In a canvas that is not inline, \<^verbatim>\<open>defs\<close> is
  handed to \<^verbatim>\<open>parseCanvasDefs\<close> and \<^verbatim>\<open>keyframe\<close> is parsed and added to the canvas.
  The statement is about \<^verbatim>\<open>parseCanvas\<close> itself, called with the flag \<open>inline\<close> on a canvas
  element that is not an alias of a registered object: \<open>s0\<close> is the state when the loop
  over the children starts, \<open>s\<close> the state after the first \<open>j\<close> children, and the next
  node in \<open>s\<close> is the open tag of the child \<open>name\<close>.  With \<open>inline\<close> and \<^verbatim>\<open>defs\<close> the
  result of \<^verbatim>\<open>parseCanvas\<close> is the error; with \<open>inline\<close> and \<^verbatim>\<open>keyframe\<close> it is the
  result of the rest of the loop on the state with the warning added and the subtree
  removed; without \<open>inline\<close> it is the result of the rest of the loop on the state that
  \<^verbatim>\<open>parseCanvasDefs\<close> leaves, or on the state with the parsed keyframe added to the
  canvas.  (\<open>skipNodes\<close> fails only when the close tag of the keyframe is missing, which
  a reader of well-formed markup never delivers.)
\<close>

theorem parseCanvas_defs_keyframe:
  assumes "pulley st = OpenTag ''canvas'' a # r"
      and "\<not> (strTruthy (attr a ''guid'') \<and> Guid_exists (the (attr a ''guid'')) st)"
      and "canvasStart ex parent inline a st = Ok (c, s0)"
      and "pulley s0 = OpenTag ''canvas'' a0 # rest0"
      and "loopRounds j (canvasCallback (j + Suc k) ex inline c) () (s0\<lparr>pulley := rest0\<rparr>)
             = Ok ((), s)"
      and "pulley s = OpenTag name a2 # rest"
  shows "(inline \<and> name = ''defs'' \<longrightarrow>
            parseCanvas (Suc (j + Suc k)) ex parent inline st = Throw InlineDefs)
       \<and> (inline \<and> name = ''keyframe'' \<longrightarrow>
            parseCanvas (Suc (j + Suc k)) ex parent inline st
              = (case skipNodes 0 rest of
                   Some rest1 \<Rightarrow>
                     andThen (loopNodes k (canvasCallback (j + Suc k) ex inline c) ()
                                ((warn [InlineNoKeyframes] s)\<lparr>pulley := rest1\<rparr>))
                       (canvasEnd c)
                 | None \<Rightarrow> Throw (ReaderError ''closetag'')))
       \<and> (\<not> inline \<and> name = ''defs'' \<longrightarrow>
            parseCanvas (Suc (j + Suc k)) ex parent inline st
              = andThen
                  (andThen (parseCanvasDefs (j + Suc k) ex c s)
                     (\<lambda>s2. loopNodes k (canvasCallback (j + Suc k) ex inline c) () s2))
                  (canvasEnd c))
       \<and> (\<not> inline \<and> name = ''keyframe'' \<longrightarrow>
            parseCanvas (Suc (j + Suc k)) ex parent inline st
              = andThen
                  (andThen (parseKeyframe (Some c) s)
                     (\<lambda>(kf, s1). loopNodes k (canvasCallback (j + Suc k) ex inline c) ()
                                   (Canvas_addKeyframe c kf s1)))
                  (canvasEnd c))"
proof -
  let ?n = "j + Suc k"
  let ?cb = "canvasCallback ?n ex inline c"
  let ?pd = "\<lambda>s1. parseCanvasDefs ?n ex c s1"
  have p: "parseCanvas (Suc ?n) ex parent inline st
             = andThen (loopNodes (Suc k) ?cb () s) (canvasEnd c)"
    using parseCanvas_loop [OF assms(1-4), of ?n] loopRounds_loopNodes [OF assms(5), of k]
    by (simp del: parseCanvasDefs.simps parseCanvas.simps parseValueNode.simps)
  have l: "loopNodes (Suc k) ?cb () s
             = andThen (canvasChild ?pd inline c s) (\<lambda>s2. loopNodes k ?cb () s2)"
    using assms(6)
    by (cases "canvasChild ?pd inline c s") (simp_all add: canvasCallback_def del: parseCanvasDefs.simps parseCanvas.simps parseValueNode.simps)
  note ch = canvasChild_defs_keyframe [OF assms(6), of ?pd c]
  have 1: "parseCanvas (Suc ?n) ex parent inline st = Throw InlineDefs"
    if "inline" "name = ''defs''"
    unfolding p l using ch that by (simp del: parseCanvasDefs.simps parseCanvas.simps parseValueNode.simps)
  have 2: "parseCanvas (Suc ?n) ex parent inline st
             = (case skipNodes 0 rest of
                  Some rest1 \<Rightarrow>
                    andThen (loopNodes k ?cb () ((warn [InlineNoKeyframes] s)\<lparr>pulley := rest1\<rparr>))
                      (canvasEnd c)
                | None \<Rightarrow> Throw (ReaderError ''closetag''))"
    if "inline" "name = ''keyframe''"
    unfolding p l using ch that by (simp split: option.splits del: parseCanvasDefs.simps parseCanvas.simps parseValueNode.simps)
  have 3: "parseCanvas (Suc ?n) ex parent inline st
             = andThen (andThen (parseCanvasDefs ?n ex c s) (\<lambda>s2. loopNodes k ?cb () s2))
                 (canvasEnd c)"
    if "\<not> inline" "name = ''defs''"
    unfolding p l using ch that by (simp del: parseCanvasDefs.simps parseCanvas.simps parseValueNode.simps)
  have 4: "parseCanvas (Suc ?n) ex parent inline st
             = andThen
                 (andThen (parseKeyframe (Some c) s)
                    (\<lambda>(kf, s1). loopNodes k ?cb () (Canvas_addKeyframe c kf s1)))
                 (canvasEnd c)"
    if "\<not> inline" "name = ''keyframe''"
    unfolding p l using ch that
    by (cases "parseKeyframe (Some c) s") (auto simp: andThen_assoc simp del: parseCanvasDefs.simps parseCanvas.simps parseValueNode.simps)
  from 1 2 3 4 show ?thesis by blast
qed

lemmas canvas_defs = sampleFile_def inlineStart_def inlineDefsStart_def startState_def
  allocCanvas_def allocNode_def
  reader_defs value_defs number_defs createCanvas_def fileExt_def Guid_exists_def
  Guid_get_def Guid_generate_def Guid_set_def updCanvas_def canvasAttributes_def
  whenAttr_def emptyCanvas_def canvasChild_def parseKeyframe_def checkAttribute_def
  Canvas_addKeyframe_def Canvas_addValueNode_def valueNodeGuid_def rootGuid_def
  getRoot_def xorGuid_def hexXor_def registerNode_def parseTime_def toLowerCase_def
  lowerChar_def parseTime_loop.simps Let_def canvasStart_def canvasCallback_def
  canvasEnd_def

theorem parseCanvas_defs_keyframe_witness:
  "parseCanvas (Suc (Suc (Suc 0))) fileExt (Some 0) True inlineDefsStart = Throw InlineDefs
   \<and> andThen (parseCanvas (Suc (Suc (Suc (Suc 0)))) fileExt (Some 0) True inlineStart)
       (\<lambda>(c, st). Ok (c, cName (canvases st 1), cKeyframes (canvases st 1), warnings st,
                       pulley st))
     = Ok (CanvasRef 1, Some ''n'', [], [InlineNoKeyframes], [])
   \<and> andThen (parseCanvas (Suc (Suc (Suc (Suc (Suc 0))))) fileExt None False
                (startState sampleFile))
       (\<lambda>(c, st). Ok (c, cKeyframes (canvases st 0), pulley st))
     = Ok (CanvasRef 0, [\<lparr>kTime = Num (2 / 5), kActive = True, kDesc = ''k''\<rparr>], [])
   \<and> andThen (parseCanvas (Suc (Suc (Suc (Suc (Suc 0))))) fileExt None False
                (startState sampleFile))
       (\<lambda>(c, st). Ok (nodes st 1, registry st ''b9'', cValueNodes (canvases st 0) ''r''))
     = Ok (VNConst (Value ''real'' (Number (Num (3 / 2))) (Some False) (Some UNDEFINED)),
           Some (NodeRef 1), Some (NodeRef 1))"
proof -
  let ?a = "[] :: attrs"
  let ?i0 = "case canvasStart fileExt (Some 0) True ?a inlineDefsStart of Ok (c, s) \<Rightarrow> s"
  let ?ir = "[OpenTag ''name'' [], TextNode ''n'' ''n'', CloseTag ''name'',
              OpenTag ''defs'' [], CloseTag ''defs'', CloseTag ''canvas'']"
  let ?is = "case loopRounds (Suc 0) (canvasCallback (Suc 0 + Suc 0) fileExt True 1) ()
                    (?i0\<lparr>pulley := ?ir\<rparr>) of Ok (u, s) \<Rightarrow> s"
  have i1: "pulley inlineDefsStart = OpenTag ''canvas'' ?a # ?ir"
    by (simp add: canvas_defs)
  have i2: "\<not> (strTruthy (attr ?a ''guid'') \<and> Guid_exists (the (attr ?a ''guid'')) inlineDefsStart)"
    by (simp add: attr_def strTruthy_def)
  have i3: "canvasStart fileExt (Some 0) True ?a inlineDefsStart = Ok (1, ?i0)"
    by (simp add: canvas_defs)
  have i4: "pulley ?i0 = OpenTag ''canvas'' ?a # ?ir"
    by (simp add: canvas_defs)
  have i5: "loopRounds (Suc 0) (canvasCallback (Suc 0 + Suc 0) fileExt True 1) ()
              (?i0\<lparr>pulley := ?ir\<rparr>) = Ok ((), ?is)"
    by (simp add: canvas_defs)
  have i6: "pulley ?is = OpenTag ''defs'' [] # [CloseTag ''defs'', CloseTag ''canvas'']"
    by (simp add: canvas_defs)
  have A: "parseCanvas (Suc (Suc (Suc 0))) fileExt (Some 0) True inlineDefsStart
             = Throw InlineDefs"
    using parseCanvas_defs_keyframe [OF i1 i2 i3 i4 i5 i6] by simp

  let ?k0 = "case canvasStart fileExt (Some 0) True ?a inlineStart of Ok (c, s) \<Rightarrow> s"
  let ?kf = "[TextNode ''k'' ''k'', CloseTag ''keyframe'',
              OpenTag ''name'' [], TextNode ''n'' ''n'', CloseTag ''name'', CloseTag ''canvas'']"
  let ?kr = "OpenTag ''keyframe'' [(''time'', ''1s'')] # ?kf"
  have k1: "pulley inlineStart = OpenTag ''canvas'' ?a # ?kr"
    by (simp add: canvas_defs)
  have k2: "\<not> (strTruthy (attr ?a ''guid'') \<and> Guid_exists (the (attr ?a ''guid'')) inlineStart)"
    by (simp add: attr_def strTruthy_def)
  have k3: "canvasStart fileExt (Some 0) True ?a inlineStart = Ok (1, ?k0)"
    by (simp add: canvas_defs)
  have k4: "pulley ?k0 = OpenTag ''canvas'' ?a # ?kr"
    by (simp add: canvas_defs)
  have k5: "loopRounds 0 (canvasCallback (0 + Suc (Suc (Suc 0))) fileExt True 1) ()
              (?k0\<lparr>pulley := ?kr\<rparr>) = Ok ((), ?k0\<lparr>pulley := ?kr\<rparr>)"
    by simp
  have k6: "pulley (?k0\<lparr>pulley := ?kr\<rparr>) = OpenTag ''keyframe'' [(''time'', ''1s'')] # ?kf"
    by simp
  have B: "andThen (parseCanvas (Suc (Suc (Suc (Suc 0)))) fileExt (Some 0) True inlineStart)
             (\<lambda>(c, st). Ok (c, cName (canvases st 1), cKeyframes (canvases st 1), warnings st,
                             pulley st))
           = Ok (CanvasRef 1, Some ''n'', [], [InlineNoKeyframes], [])"
    using parseCanvas_defs_keyframe [OF k1 k2 k3 k4 k5 k6] by (simp add: canvas_defs)

  let ?b = "[(''guid'', ''ab''), (''fps'', ''25''), (''end-time'', ''50'')]"
  let ?f0 = "case canvasStart fileExt None False ?b (startState sampleFile) of Ok (c, s) \<Rightarrow> s"
  let ?fr = "tl sampleFile"
  let ?fk = "[(''time'', ''10f''), (''active'', ''maybe'')]"
  let ?fs = "case loopRounds (Suc 0) (canvasCallback (Suc 0 + Suc (Suc (Suc 0))) fileExt False 0) ()
                    (?f0\<lparr>pulley := ?fr\<rparr>) of Ok (u, s) \<Rightarrow> s"
  have f1: "pulley (startState sampleFile) = OpenTag ''canvas'' ?b # ?fr"
    by (simp add: canvas_defs)
  have f2: "\<not> (strTruthy (attr ?b ''guid'')
              \<and> Guid_exists (the (attr ?b ''guid'')) (startState sampleFile))"
    by (simp add: canvas_defs)
  have f3: "canvasStart fileExt None False ?b (startState sampleFile) = Ok (0, ?f0)"
    by (simp add: canvas_defs)
  have f4: "pulley ?f0 = OpenTag ''canvas'' ?b # ?fr"
    by (simp add: canvas_defs)
  have f5: "loopRounds 0 (canvasCallback (0 + Suc (Suc (Suc (Suc 0)))) fileExt False 0) ()
              (?f0\<lparr>pulley := ?fr\<rparr>) = Ok ((), ?f0\<lparr>pulley := ?fr\<rparr>)"
    by simp
  have f6: "pulley (?f0\<lparr>pulley := ?fr\<rparr>) = OpenTag ''keyframe'' ?fk # tl ?fr"
    by (simp add: canvas_defs)
  have C: "andThen (parseCanvas (Suc (Suc (Suc (Suc (Suc 0))))) fileExt None False
                      (startState sampleFile))
             (\<lambda>(c, st). Ok (c, cKeyframes (canvases st 0), pulley st))
           = Ok (CanvasRef 0, [\<lparr>kTime = Num (2 / 5), kActive = True, kDesc = ''k''\<rparr>], [])"
    using parseCanvas_defs_keyframe [OF f1 f2 f3 f4 f5 f6] by (simp add: canvas_defs)
  have g5: "loopRounds (Suc 0) (canvasCallback (Suc 0 + Suc (Suc (Suc 0))) fileExt False 0) ()
              (?f0\<lparr>pulley := ?fr\<rparr>) = Ok ((), ?fs)"
    by (simp add: canvas_defs)
  have g6: "pulley ?fs = OpenTag ''defs'' [] # drop 5 sampleFile"
    by (simp add: canvas_defs)
  have D: "andThen (parseCanvas (Suc (Suc (Suc (Suc (Suc 0))))) fileExt None False
                      (startState sampleFile))
             (\<lambda>(c, st). Ok (nodes st 1, registry st ''b9'', cValueNodes (canvases st 0) ''r''))
           = Ok (VNConst (Value ''real'' (Number (Num (3 / 2))) (Some False) (Some UNDEFINED)),
                 Some (NodeRef 1), Some (NodeRef 1))"
    using parseCanvas_defs_keyframe [OF f1 f2 f3 f4 g5 g6] by (simp add: canvas_defs)
  from A B C D show ?thesis by blast
qed

text \<open>The whole inline canvas of \<open>inlineStart\<close>: the keyframe is dropped with a
  warning and the name after it is parsed.\<close>

lemma parseCanvas_inline_example:
  "andThen (parseCanvas (Suc (Suc (Suc (Suc 0)))) fileExt (Some 0) True inlineStart)
     (\<lambda>(c, st). Ok (c, cName (canvases st 1), cKeyframes (canvases st 1), warnings st,
                     pulley st))
   = Ok (CanvasRef 1, Some ''n'', [], [InlineNoKeyframes], [])"
  by (simp add: inlineStart_def allocCanvas_def startState_def reader_defs createCanvas_def
        fileExt_def Guid_exists_def Guid_generate_def Guid_set_def updCanvas_def
        canvasAttributes_def whenAttr_def emptyCanvas_def canvasChild_def)

section \<open>Properties of the value-node parser\<close>

lemma skipTag_Ok:
  assumes "skipTag st = Ok st1"
  shows "\<exists>r. st1 = st\<lparr>pulley := r\<rparr>"
  using assms by (auto simp: skipTag_def split: list.splits node.splits option.splits)

lemma valueNodeGuid_Inl:
  assumes "valueNodeGuid ex canvas a st = Ok (Inl obj, st1)"
  shows "registry st1 (nodeGuid ex canvas a st) = Some obj"
proof -
  have t: "strTruthy (attr a ''guid'')"
    using assms by (auto simp: valueNodeGuid_def split: if_splits prod.splits)
  let ?g = "guid_xor ex (the (attr a ''guid'')) (rootGuid ex st canvas)"
  from assms t obtain st2 where s: "skipTag st = Ok st2" and g: "Guid_get ?g st2 = Ok obj"
    and e: "st1 = st2"
    by (auto simp: valueNodeGuid_def Let_def andThen_Ok split: if_splits)
  from skipTag_Ok [OF s] obtain r where "st2 = st\<lparr>pulley := r\<rparr>" ..
  with g e have "registry st1 ?g = Some obj"
    by (auto simp: Guid_get_def split: option.splits)
  with t show ?thesis by (simp add: nodeGuid_def)
qed

lemma valueNodeGuid_Inr:
  assumes "valueNodeGuid ex canvas a st = Ok (Inr g, st1)"
  shows "g = nodeGuid ex canvas a st"
  using assms
  by (auto simp: valueNodeGuid_def nodeGuid_def Guid_generate_def Let_def andThen_Ok
        split: if_splits)

lemma registerNode_Ok:
  assumes "registerNode canvas a g node st = Ok (r, st1)"
  shows "r = node \<and> registry st1 g = Some node"
  using assms
  by (auto simp: registerNode_def Let_def Guid_set_def Canvas_addValueNode_def updCanvas_def
        split: if_splits)

lemma parseValueNode_registers:
  assumes "parseValueNode fuel ex canvas st = Ok (node, st1)"
      and "pulley st = OpenTag name a # rest"
  shows "registry st1 (nodeGuid ex canvas a st) = Some node"
proof (cases fuel)
  case 0
  with assms(1) show ?thesis by simp
next
  case (Suc n)
  have c: "check_opentag st = Ok (name, a)" using assms(2) by (simp add: check_opentag_def)
  from assms(1) obtain g st2 where v: "valueNodeGuid ex canvas a st = Ok (g, st2)"
    unfolding Suc parseValueNode.simps c by (auto simp: andThen_Ok)
  show ?thesis
  proof (cases g)
    case (Inl obj)
    with assms(1) v have "obj = node" "st2 = st1"
      unfolding Suc parseValueNode.simps c by auto
    with valueNodeGuid_Inl v Inl show ?thesis by blast
  next
    case (Inr guid)
    with assms(1) v obtain nd st5 where "registerNode canvas a guid nd st5 = Ok (node, st1)"
      unfolding Suc parseValueNode.simps c by (auto simp: andThen_Ok)
    from registerNode_Ok [OF this] valueNodeGuid_Inr v Inr show ?thesis by blast
  qed
qed

lemma parseValueNode_alias:
  assumes "pulley st = OpenTag name a # rest"
      and "strTruthy (attr a ''guid'')"
      and "registry st (guid_xor ex (the (attr a ''guid'')) (rootGuid ex st canvas)) = Some obj"
  shows "parseValueNode (Suc n) ex canvas st
           = (case skipNodes 0 rest of
                Some r \<Rightarrow> Ok (obj, st\<lparr>pulley := r\<rparr>)
              | None \<Rightarrow> Throw (ReaderError ''closetag''))"
proof -
  have c: "check_opentag st = Ok (name, a)" using assms(1) by (simp add: check_opentag_def)
  have "valueNodeGuid ex canvas a st
          = (case skipNodes 0 rest of
               Some r \<Rightarrow> Ok (Inl obj, st\<lparr>pulley := r\<rparr>)
             | None \<Rightarrow> Throw (ReaderError ''closetag''))"
    using assms
    by (simp add: valueNodeGuid_def Guid_exists_def Guid_get_def skipTag_def
          split: option.splits)
  then show ?thesis
    unfolding parseValueNode.simps c by (simp split: option.splits)
qed

text \<open>
  Claim C1.  A value node, once parsed, is registered under its reference id: the
  transformed id of the element, or the generated one when the element has none
  (\<open>nodeGuid\<close>).  And when, in a state whose registry still holds that entry, the next
  element carries a reference id that transforms to the same id, parsing it returns the
  very same node: the subtree is skipped (only the reader moves; no node is allocated and
  nothing is parsed again).
\<close>

theorem parseValueNode_shared:
  assumes "parseValueNode fuel ex canvas st = Ok (node, st1)"
      and "pulley st = OpenTag name a # rest"
      and "pulley st2 = OpenTag name2 a2 # rest2"
      and "strTruthy (attr a2 ''guid'')"
      and "guid_xor ex (the (attr a2 ''guid'')) (rootGuid ex st2 canvas2)
             = nodeGuid ex canvas a st"
      and "registry st2 (nodeGuid ex canvas a st) = registry st1 (nodeGuid ex canvas a st)"
  shows "registry st1 (nodeGuid ex canvas a st) = Some node
       \<and> parseValueNode (Suc n) ex canvas2 st2
           = (case skipNodes 0 rest2 of
                Some r \<Rightarrow> Ok (node, st2\<lparr>pulley := r\<rparr>)
              | None \<Rightarrow> Throw (ReaderError ''closetag''))"
proof
  show r: "registry st1 (nodeGuid ex canvas a st) = Some node"
    using assms(1,2) by (rule parseValueNode_registers)
  have "registry st2 (guid_xor ex (the (attr a2 ''guid'')) (rootGuid ex st2 canvas2)) = Some node"
    using r assms(5,6) by simp
  with assms(3,4) show "parseValueNode (Suc n) ex canvas2 st2
           = (case skipNodes 0 rest2 of
                Some r \<Rightarrow> Ok (node, st2\<lparr>pulley := r\<rparr>)
              | None \<Rightarrow> Throw (ReaderError ''closetag''))"
    by (rule parseValueNode_alias)
qed

theorem parseValueNode_shared_witness:
  "parseValueNode (Suc (Suc 0)) fileExt 0 sharedStart = Ok (NodeRef 1, sharedNext)
   \<and> registry sharedNext ''b9'' = Some (NodeRef 1)
   \<and> nodeGuid fileExt 0 [(''guid'', ''12''), (''value'', ''1.5'')] sharedStart = ''b9''
   \<and> parseValueNode (Suc 0) fileExt 0 sharedNext = Ok (NodeRef 1, sharedNext\<lparr>pulley := []\<rparr>)"
proof -
  let ?a = "[(''guid'', ''12''), (''value'', ''1.5'')]"
  let ?a2 = "[(''guid'', ''12''), (''value'', ''7'')]"
  have e: "parseValueNode (Suc (Suc 0)) fileExt 0 sharedStart = Ok (NodeRef 1, sharedNext)"
    by (simp add: sharedStart_def sharedNext_def allocCanvas_def allocNode_def startState_def
          reader_defs value_defs number_defs valueNodeGuid_def rootGuid_def fileExt_def
          getRoot_def xorGuid_def hexXor_def Guid_exists_def Guid_set_def registerNode_def
          emptyCanvas_def)
  have p: "pulley sharedStart
             = OpenTag ''real'' ?a # [CloseTag ''real'', OpenTag ''real'' ?a2, CloseTag ''real'']"
    by (simp add: sharedStart_def allocCanvas_def startState_def)
  have p2: "pulley sharedNext = OpenTag ''real'' ?a2 # [CloseTag ''real'']"
    by (simp add: sharedNext_def Guid_set_def allocNode_def)
  have t: "strTruthy (attr ?a2 ''guid'')" by (simp add: strTruthy_def attr_def)
  have g: "nodeGuid fileExt 0 ?a sharedStart = ''b9''"
    by (simp add: nodeGuid_def strTruthy_def attr_def rootGuid_def fileExt_def getRoot_def
          sharedStart_def allocCanvas_def startState_def xorGuid_def hexXor_def digitVal_def
          isDigit_def)
  have x: "guid_xor fileExt (the (attr ?a2 ''guid'')) (rootGuid fileExt sharedNext 0)
             = nodeGuid fileExt 0 ?a sharedStart"
    unfolding g
    by (simp add: attr_def rootGuid_def fileExt_def getRoot_def sharedNext_def Guid_set_def
          allocNode_def sharedStart_def allocCanvas_def startState_def xorGuid_def hexXor_def
          digitVal_def isDigit_def)
  from parseValueNode_shared [OF e p p2 t x refl, of 0]
  have "registry sharedNext ''b9'' = Some (NodeRef 1)"
    and "parseValueNode (Suc 0) fileExt 0 sharedNext = Ok (NodeRef 1, sharedNext\<lparr>pulley := []\<rparr>)"
    unfolding g by simp_all
  with e g show ?thesis by blast
qed

text \<open>
  A whole document, \<open>sampleFile\<close>: the canvas is the object at address 0 and the first
  \<^verbatim>\<open>real\<close> the node at address 1; the second \<^verbatim>\<open>real\<close> allocates nothing, and the id
  \<^verbatim>\<open>12\<close>, transformed with the id \<^verbatim>\<open>ab\<close> of the root, is registered once.
\<close>

lemma loadSif_example:
  "andThen (loadSif (Suc (Suc (Suc (Suc (Suc 0))))) fileExt sampleFile)
     (\<lambda>(c, st). Ok (c, pulley st, warnings st, cKeyframes (canvases st 0),
                     cTimeEnd (canvases st 0), nextRef st, nodes st 1, registry st ''b9'',
                     cValueNodes (canvases st 0) ''r''))
   = Ok (CanvasRef 0, [], [NoUnitAssumingFrames ''50''],
         [\<lparr>kTime = Num (2 / 5), kActive = True, kDesc = ''k''\<rparr>], Some (Num 2), 2,
         VNConst (Value ''real'' (Number (Num (3 / 2))) (Some False) (Some UNDEFINED)),
         Some (NodeRef 1), Some (NodeRef 1))"
  by (simp add: loadSif_def sampleFile_def startState_def allocCanvas_def allocNode_def
        reader_defs value_defs number_defs createCanvas_def fileExt_def Guid_exists_def
        Guid_get_def Guid_generate_def Guid_set_def updCanvas_def canvasAttributes_def
        whenAttr_def emptyCanvas_def canvasChild_def parseKeyframe_def checkAttribute_def
        Canvas_addKeyframe_def Canvas_addValueNode_def valueNodeGuid_def rootGuid_def
        getRoot_def xorGuid_def hexXor_def registerNode_def parseTime_def toLowerCase_def
        lowerChar_def parseTime_loop.simps Let_def)

end
